theory Spec2Isabelle
  imports Complex_Main "HOL-Library.Sublist" "HOL-Library.Word"
begin

section \<open>Three scripts\<close>

text \<open>
  The repository holds three versions of the find-Batman client script:
  \<^item> the plain one (first script of \<^verbatim>\<open>front-end/script.js\<close>), suffix \<open>_plain\<close>;
  \<^item> the one with a timer and a score (second script of the same file), suffix \<open>_timed\<close>;
  \<^item> the one calling \<^verbatim>\<open>/api/process\<close> (last script of \<^verbatim>\<open>unnamed/part_000\<close>),
    suffix \<open>_api\<close>.
  Functions whose names occur in several versions carry the suffix; the others keep the
  source's name. The numbers of the hit test are double-precision values (\<open>number\<close>,
  below); counters are \<open>nat\<close>; clock readings (milliseconds), whole seconds and scores
  are \<open>int\<close>, which the doubles holding them represent exactly.
\<close>

section \<open>JavaScript numbers\<close>

text \<open>
  A Number is an IEEE 754 binary64 value: not-a-number, an infinity (\<open>Infinity True\<close> is
  the positive one) or a finite value. The sign of zero is not kept: nothing below
  divides, and every other operation used treats both zeros alike.
\<close>

datatype number = NaN | Infinity bool | Fin real

text \<open>Rounding to the nearest integer, ties to the even one.\<close>

definition round_ties_even :: "real \<Rightarrow> int" where
  "round_ties_even y =
     (let f = \<lfloor>y\<rfloor>; d = y - of_int f
      in if d < 1 / 2 then f else if 1 / 2 < d then f + 1 else if even f then f else f + 1)"

text \<open>
  The exponent of the unit in the last place at \<open>x\<close>: 53 significant bits, the
  smallest normal exponent is \<open>-1022\<close> (below it the spacing stays \<open>2 powi -1074\<close>).
\<close>

definition ulp_exponent :: "real \<Rightarrow> int" where
  "ulp_exponent x = max \<lfloor>log 2 \<bar>x\<bar>\<rfloor> (- 1022) - 52"

text \<open>
  The double nearest to a real number (round to nearest, ties to even); a result of
  magnitude \<open>2 ^ 1024\<close> or more is an infinity.
\<close>

definition round64 :: "real \<Rightarrow> number" where
  "round64 x =
     (if x = 0 then Fin 0
      else
        let u = 2 powi ulp_exponent x;
            r = of_int (round_ties_even (x / u)) * u
        in if 2 ^ 1024 \<le> \<bar>r\<bar> then Infinity (0 < r) else Fin r)"

text \<open>\<^verbatim>\<open>a + b\<close>, \<^verbatim>\<open>a - b\<close> and \<^verbatim>\<open>a * b\<close> on Numbers.\<close>

fun js_add :: "number \<Rightarrow> number \<Rightarrow> number" where
  "js_add NaN b = NaN"
| "js_add a NaN = NaN"
| "js_add (Infinity p) (Infinity q) = (if p = q then Infinity p else NaN)"
| "js_add (Infinity p) (Fin b) = Infinity p"
| "js_add (Fin a) (Infinity q) = Infinity q"
| "js_add (Fin a) (Fin b) = round64 (a + b)"

fun js_sub :: "number \<Rightarrow> number \<Rightarrow> number" where
  "js_sub NaN b = NaN"
| "js_sub a NaN = NaN"
| "js_sub (Infinity p) (Infinity q) = (if p = q then NaN else Infinity p)"
| "js_sub (Infinity p) (Fin b) = Infinity p"
| "js_sub (Fin a) (Infinity q) = Infinity (\<not> q)"
| "js_sub (Fin a) (Fin b) = round64 (a - b)"

fun js_mul :: "number \<Rightarrow> number \<Rightarrow> number" where
  "js_mul NaN b = NaN"
| "js_mul a NaN = NaN"
| "js_mul (Infinity p) (Infinity q) = Infinity (p = q)"
| "js_mul (Infinity p) (Fin b) = (if b = 0 then NaN else Infinity (p = (0 < b)))"
| "js_mul (Fin a) (Infinity q) = (if a = 0 then NaN else Infinity (q = (0 < a)))"
| "js_mul (Fin a) (Fin b) = round64 (a * b)"

text \<open>\<^verbatim>\<open>a <= b\<close>: false when either side is not a number.\<close>

fun js_le :: "number \<Rightarrow> number \<Rightarrow> bool" where
  "js_le NaN b = False"
| "js_le a NaN = False"
| "js_le (Infinity p) (Infinity q) = (q \<or> \<not> p)"
| "js_le (Infinity p) (Fin b) = (\<not> p)"
| "js_le (Fin a) (Infinity q) = q"
| "js_le (Fin a) (Fin b) = (a \<le> b)"

text \<open>
  \<^verbatim>\<open>Math.pow(x, 2)\<close> and \<^verbatim>\<open>Math.sqrt(x)\<close>. The language leaves the precision of both to
  the implementation; they are taken correctly rounded, the square as the product
  \<^verbatim>\<open>x * x\<close>, which is what the engines in use compute.
\<close>

definition Math_pow_2 :: "number \<Rightarrow> number" where
  "Math_pow_2 x = js_mul x x"

fun Math_sqrt :: "number \<Rightarrow> number" where
  "Math_sqrt NaN = NaN"
| "Math_sqrt (Infinity p) = (if p then Infinity True else NaN)"
| "Math_sqrt (Fin a) = (if a < 0 then NaN else round64 (sqrt a))"

section \<open>The page\<close>

text \<open>
  One record holds the script globals, the DOM they write and the browser's timers.
  First its parts: \<^verbatim>\<open>batmanLocation = { x, y, radius }\<close>.
\<close>

record location =
  loc_x :: number
  loc_y :: number
  loc_radius :: number

text \<open>
  A \<^verbatim>\<open>div.click-marker\<close> created by a handler. \<open>marker_id\<close> is the identity of the DOM
  node (two markers at the same place are different nodes); \<open>marker_success\<close> says
  that the class \<^verbatim>\<open>success-marker\<close> was added.
\<close>

record marker =
  marker_id :: nat
  marker_left :: number
  marker_top :: number
  marker_success :: bool

datatype step = Upload | Ready | Game | Results

text \<open>The values \<^verbatim>\<open>compositeImagePath\<close> takes.\<close>

datatype path_value = Null | Undefined | Path string

text \<open>
  Texts written to \<^verbatim>\<open>message\<close> and \<^verbatim>\<open>uploadStatus\<close>. Each constructor is one
  string literal or template literal of the source; the holes of a template are the
  constructor's arguments.
\<close>

datatype text_content =
    Empty
  | FoundBatmanBat nat
    \<comment> \<open>the plain script's \<^verbatim>\<open>You found Batman in ${attempts} attempt(s)!\<close>, which starts with a bat emoji\<close>
  | FoundBatman nat
    \<comment> \<open>\<^verbatim>\<open>You found Batman in ${attempts} attempt(s)!\<close>\<close>
  | NotQuite
    \<comment> \<open>\<^verbatim>\<open>Not quite! Keep looking...\<close>\<close>
  | BatmanRevealed
    \<comment> \<open>\<^verbatim>\<open>Batman revealed. Try again!\<close>\<close>
  | ProcessingYolo
    \<comment> \<open>\<^verbatim>\<open>Processing image with YOLO segmentation...\<close>\<close>
  | DetectedWithMetrics int string number number
    \<comment> \<open>\<^verbatim>\<open>Detected ${n} objects. Best occluder: ${o}. Visible fragment ${v}%, low-saliency ${s}%. Find Batman!\<close>\<close>
  | Detected int string
    \<comment> \<open>\<^verbatim>\<open>Detected ${n} objects. Best occluder: ${o}. Find Batman!\<close>\<close>
  | ErrorText string
    \<comment> \<open>\<^verbatim>\<open>Error: ${err.message}\<close>\<close>
  | ErrorTypeError
    \<comment> \<open>\<^verbatim>\<open>Error: ${err.message}\<close> for the engine's \<^verbatim>\<open>TypeError\<close> on reading a property of \<^verbatim>\<open>undefined\<close>\<close>
  | UploadingPleaseWait
    \<comment> \<open>\<^verbatim>\<open>Uploading and processing image... Please wait.\<close>\<close>
  | ImageProcessed
    \<comment> \<open>\<^verbatim>\<open>Image processed! Ready to play.\<close>\<close>
  | FailedToUpload
    \<comment> \<open>\<^verbatim>\<open>Failed to upload image. Please try again.\<close>\<close>
  | ErrorUploading
    \<comment> \<open>\<^verbatim>\<open>Error uploading image. Please try again.\<close>\<close>

text \<open>The callbacks handed to \<^verbatim>\<open>setTimeout\<close>.\<close>

datatype task =
    RemoveMarker nat
    \<comment> \<open>\<^verbatim>\<open>() => { marker.remove(); }\<close>, the marker given by its node identity\<close>
  | ShowResults int int
    \<comment> \<open>\<^verbatim>\<open>() => { showResults(clicks, timeElapsed, score); }\<close>: the block constants
        \<^verbatim>\<open>timeElapsed\<close> and \<^verbatim>\<open>score\<close> are held by the callback; \<^verbatim>\<open>clicks\<close> is the
        script's global, read when the callback runs\<close>
  | ShowStep step
    \<comment> \<open>\<^verbatim>\<open>() => { showStep('ready'); }\<close>\<close>

text \<open>A \<^verbatim>\<open>File\<close> as far as the handlers read it.\<close>

record upload_file =
  file_name :: string
  file_type :: string

record page =
  \<comment> \<open>script globals\<close>
  gameActive :: bool
  attempts :: nat
  clicks :: nat
  startTime :: "int option"
  timerInterval :: "nat option"
  compositeImagePath :: path_value
  processing :: bool
  batmanLocation :: location
  \<comment> \<open>DOM\<close>
  fileInputValue :: string
  activeStep :: "step option"
  gameImageSrc :: "string option"
  markers :: "marker list"
  message :: text_content
  messageClass :: string
  attemptsDisplay :: nat
  clicksDisplay :: nat
  timerDisplay :: "(int \<times> int) option"
  uploadStatus :: text_content
  playAgainBtnDisplay :: string
  giveUpBtnDisplay :: string
  uploadAreaBackground :: string
  hasLoadingOverlay :: bool
  loadingOverlayDisplay :: string
  loadingOverlayText :: string
  buttonsDisabled :: bool
  finalTime :: "(int \<times> int) option"
  finalClicks :: nat
  finalScore :: int
  \<comment> \<open>browser\<close>
  nodeCount :: nat
  timeouts :: "(nat \<times> task) list"
  intervals :: "nat set"
  timerCount :: nat
  fetches :: "(string \<times> upload_file) list"

text \<open>
  \<open>activeStep\<close> is the step element carrying the class \<^verbatim>\<open>active\<close>; \<open>gameImageSrc\<close> is
  the text last assigned to \<^verbatim>\<open>gameImage.src\<close>, if any.
  \<open>markers\<close> are the \<^verbatim>\<open>.click-marker\<close> children of \<^verbatim>\<open>gameContainer\<close>, in document
  order. \<open>timerDisplay\<close> and \<open>finalTime\<close> hold the minutes and seconds of the text
  \<^verbatim>\<open>m:ss\<close>. \<open>nodeCount\<close> numbers the nodes made by \<^verbatim>\<open>createElement\<close>; \<open>timeouts\<close> are
  the pending \<^verbatim>\<open>setTimeout\<close> calls (delay in milliseconds, callback); \<open>intervals\<close>
  are the identifiers of the running \<^verbatim>\<open>setInterval\<close> timers and \<open>timerCount\<close> the
  last identifier issued; \<open>fetches\<close> are the requests sent (URL, uploaded file).
\<close>

section \<open>Browser primitives\<close>

text \<open>\<^verbatim>\<open>setTimeout(callback, delay)\<close>.\<close>

definition setTimeout :: "task \<Rightarrow> nat \<Rightarrow> page \<Rightarrow> page" where
  "setTimeout callback delay s = s\<lparr>timeouts := timeouts s @ [(delay, callback)]\<rparr>"

text \<open>
  \<^verbatim>\<open>setInterval\<close> issues a fresh identifier, greater than zero, and starts the timer;
  the caller stores the identifier. The one callback ever passed is \<^verbatim>\<open>updateTimer\<close>,
  every 100 ms; the period is not recorded.
\<close>

definition setInterval :: "page \<Rightarrow> nat \<times> page" where
  "setInterval s =
     (let tid = Suc (timerCount s)
      in (tid, s\<lparr>timerCount := tid, intervals := insert tid (intervals s)\<rparr>))"

text \<open>\<^verbatim>\<open>clearInterval(id)\<close>; \<^verbatim>\<open>null\<close> names no timer.\<close>

definition clearInterval :: "nat option \<Rightarrow> page \<Rightarrow> page" where
  "clearInterval t s =
     (case t of None \<Rightarrow> s | Some tid \<Rightarrow> s\<lparr>intervals := intervals s - {tid}\<rparr>)"

text \<open>\<^verbatim>\<open>marker.remove()\<close>: detaches that node if it is attached.\<close>

definition removeMarker :: "nat \<Rightarrow> page \<Rightarrow> page" where
  "removeMarker i s = s\<lparr>markers := filter (\<lambda>m. marker_id m \<noteq> i) (markers s)\<rparr>"

text \<open>\<^verbatim>\<open>gameContainer.querySelectorAll('.click-marker').forEach(m => m.remove())\<close>.\<close>

definition removeAllMarkers :: "page \<Rightarrow> page" where
  "removeAllMarkers s = s\<lparr>markers := []\<rparr>"

text \<open>
  \<^verbatim>\<open>file && file.type.startsWith('image/')\<close>; \<^verbatim>\<open>files[0]\<close> is \<^verbatim>\<open>undefined\<close> (\<open>None\<close>)
  when the list is empty.
\<close>

definition isImageFile :: "upload_file option \<Rightarrow> bool" where
  "isImageFile f = (case f of None \<Rightarrow> False | Some fl \<Rightarrow> prefix ''image/'' (file_type fl))"

section \<open>The click and the hit test\<close>

text \<open>
  What a click handler reads from the event and from the layout:
  \<^verbatim>\<open>e.clientX\<close>, \<^verbatim>\<open>e.clientY\<close>, \<^verbatim>\<open>gameImage.getBoundingClientRect()\<close>,
  \<^verbatim>\<open>gameImage.width\<close> and \<^verbatim>\<open>gameImage.height\<close> (the rendered size, an
  \<^verbatim>\<open>unsigned long\<close>, which a double holds exactly).
\<close>

record click_event =
  clientX :: number
  clientY :: number
  rect_left :: number
  rect_top :: number
  image_width :: "32 word"
  image_height :: "32 word"

definition of_unsigned_long :: "32 word \<Rightarrow> number" where
  "of_unsigned_long w = Fin (real (unat w))"

definition clickX :: "click_event \<Rightarrow> number" where
  "clickX e = js_sub (clientX e) (rect_left e)"

definition clickY :: "click_event \<Rightarrow> number" where
  "clickY e = js_sub (clientY e) (rect_top e)"

definition batmanX :: "click_event \<Rightarrow> location \<Rightarrow> number" where
  "batmanX e loc = js_mul (loc_x loc) (of_unsigned_long (image_width e))"

definition batmanY :: "click_event \<Rightarrow> location \<Rightarrow> number" where
  "batmanY e loc = js_mul (loc_y loc) (of_unsigned_long (image_height e))"

definition distance :: "click_event \<Rightarrow> location \<Rightarrow> number" where
  "distance e loc =
     Math_sqrt (js_add (Math_pow_2 (js_sub (clickX e) (batmanX e loc)))
                       (Math_pow_2 (js_sub (clickY e) (batmanY e loc))))"

text \<open>The condition \<^verbatim>\<open>distance <= batmanLocation.radius\<close> of all three handlers.\<close>

definition isHit :: "click_event \<Rightarrow> location \<Rightarrow> bool" where
  "isHit e loc = js_le (distance e loc) (loc_radius loc)"

text \<open>The marker each handler creates before the test.\<close>

definition newMarker :: "click_event \<Rightarrow> page \<Rightarrow> marker" where
  "newMarker e s =
     \<lparr>marker_id = nodeCount s, marker_left = clickX e, marker_top = clickY e,
      marker_success = False\<rparr>"

definition appendMarker :: "marker \<Rightarrow> page \<Rightarrow> page" where
  "appendMarker m s = s\<lparr>markers := markers s @ [m]\<rparr>"

section \<open>The plain script\<close>

definition GAME_IMAGE_PATH :: string where
  "GAME_IMAGE_PATH = ''images/batman-game.jpg''"

text \<open>
  \<^verbatim>\<open>showStep\<close> removes the class \<^verbatim>\<open>active\<close> from every step it knows and adds it to
  the one named; this script knows \<^verbatim>\<open>upload\<close> and \<^verbatim>\<open>game\<close> only.
\<close>

definition showStep_plain :: "step \<Rightarrow> page \<Rightarrow> page" where
  "showStep_plain st s =
     s\<lparr>activeStep := (if st = Upload \<or> st = Game then Some st else None)\<rparr>"

definition startGame_plain :: "page \<Rightarrow> page" where
  "startGame_plain s =
     (let s1 = s\<lparr>gameImageSrc := Some GAME_IMAGE_PATH\<rparr>;
          s2 = showStep_plain Game s1;
          s3 = s2\<lparr>gameActive := True\<rparr>;
          s4 = s3\<lparr>attempts := 0\<rparr>
      in s4\<lparr>attemptsDisplay := attempts s4\<rparr>)"

definition fileInput_change_plain :: "upload_file option \<Rightarrow> page \<Rightarrow> page" where
  "fileInput_change_plain f s = (if isImageFile f then startGame_plain s else s)"

definition uploadArea_dragover :: "page \<Rightarrow> page" where
  "uploadArea_dragover s = s\<lparr>uploadAreaBackground := ''#333''\<rparr>"

definition uploadArea_dragleave :: "page \<Rightarrow> page" where
  "uploadArea_dragleave s = s\<lparr>uploadAreaBackground := ''''\<rparr>"

definition uploadArea_drop_plain :: "upload_file option \<Rightarrow> page \<Rightarrow> page" where
  "uploadArea_drop_plain f s =
     (let s1 = s\<lparr>uploadAreaBackground := ''''\<rparr>
      in if isImageFile f then startGame_plain s1 else s1)"

definition gameImage_click_plain :: "click_event \<Rightarrow> page \<Rightarrow> page" where
  "gameImage_click_plain e s =
     (if \<not> gameActive s then s
      else
        let s1 = s\<lparr>attempts := attempts s + 1\<rparr>;
            s2 = s1\<lparr>attemptsDisplay := attempts s1\<rparr>;
            m = newMarker e s2;
            s3 = s2\<lparr>nodeCount := Suc (nodeCount s2)\<rparr>
        in if isHit e (batmanLocation s3) then
             let s4 = appendMarker (m\<lparr>marker_success := True\<rparr>) s3;
                 s5 = s4\<lparr>message := FoundBatmanBat (attempts s4)\<rparr>;
                 s6 = s5\<lparr>messageClass := ''message success''\<rparr>;
                 s7 = s6\<lparr>gameActive := False\<rparr>
             in s7\<lparr>playAgainBtnDisplay := ''inline-block''\<rparr>
           else
             let s4 = appendMarker m s3;
                 s5 = s4\<lparr>message := NotQuite\<rparr>;
                 s6 = s5\<lparr>messageClass := ''message try-again''\<rparr>
             in setTimeout (RemoveMarker (marker_id m)) 1000 s6)"

definition playAgain_plain :: "page \<Rightarrow> page" where
  "playAgain_plain s =
     (let s1 = removeAllMarkers s;
          s2 = s1\<lparr>gameActive := True\<rparr>;
          s3 = s2\<lparr>attempts := 0\<rparr>;
          s4 = s3\<lparr>attemptsDisplay := attempts s3\<rparr>;
          s5 = s4\<lparr>message := Empty\<rparr>
      in s5\<lparr>playAgainBtnDisplay := ''none''\<rparr>)"


section \<open>The script with timer and score\<close>

text \<open>
  JavaScript's \<^verbatim>\<open>a % b\<close> takes the sign of \<open>a\<close>; \<^verbatim>\<open>Math.floor(a / b)\<close> is \<open>div\<close> on
  \<open>int\<close> for a positive \<open>b\<close>.
\<close>

definition js_rem :: "int \<Rightarrow> int \<Rightarrow> int" where
  "js_rem a b = sgn a * (\<bar>a\<bar> mod \<bar>b\<bar>)"

text \<open>What \<^verbatim>\<open>await response.json()\<close> gives \<^verbatim>\<open>uploadAndProcess\<close>, or that the request threw.\<close>

datatype upload_reply =
    UploadThrown
  | UploadResult bool "string option"
    \<comment> \<open>whether \<^verbatim>\<open>result.success\<close> is truthy, and \<^verbatim>\<open>result.path\<close> (\<open>None\<close> when the
        reply has none)\<close>

definition showStep_timed :: "step \<Rightarrow> page \<Rightarrow> page" where
  "showStep_timed st s = s\<lparr>activeStep := Some st\<rparr>"

text \<open>\<^verbatim>\<open>uploadAndProcess\<close> up to its first \<^verbatim>\<open>await\<close>.\<close>

definition uploadAndProcess_begin :: "upload_file \<Rightarrow> page \<Rightarrow> page" where
  "uploadAndProcess_begin f s =
     (let s1 = s\<lparr>uploadStatus := UploadingPleaseWait\<rparr>
      in s1\<lparr>fetches := fetches s1 @ [(''/upload'', f)]\<rparr>)"

text \<open>\<^verbatim>\<open>uploadAndProcess\<close> from the reply on.\<close>

definition uploadAndProcess_resume :: "upload_reply \<Rightarrow> page \<Rightarrow> page" where
  "uploadAndProcess_resume r s =
     (case r of
        UploadThrown \<Rightarrow> s\<lparr>uploadStatus := ErrorUploading\<rparr>
      | UploadResult success path \<Rightarrow>
          if success then
            let s1 = s\<lparr>compositeImagePath :=
                         (case path of None \<Rightarrow> Undefined | Some p \<Rightarrow> Path p)\<rparr>;
                s2 = s1\<lparr>uploadStatus := ImageProcessed\<rparr>
            in setTimeout (ShowStep Ready) 1000 s2
          else s\<lparr>uploadStatus := FailedToUpload\<rparr>)"

definition fileInput_change_timed :: "upload_file option \<Rightarrow> page \<Rightarrow> page" where
  "fileInput_change_timed f s =
     (case f of None \<Rightarrow> s
      | Some fl \<Rightarrow> if isImageFile f then uploadAndProcess_begin fl s else s)"

definition uploadArea_drop_timed :: "upload_file option \<Rightarrow> page \<Rightarrow> page" where
  "uploadArea_drop_timed f s =
     (let s1 = s\<lparr>uploadAreaBackground := ''''\<rparr>
      in case f of None \<Rightarrow> s1
         | Some fl \<Rightarrow> if isImageFile f then uploadAndProcess_begin fl s1 else s1)"

text \<open>
  Assigning to \<^verbatim>\<open>gameImage.src\<close> turns the value into text: \<^verbatim>\<open>null\<close> becomes
  \<^verbatim>\<open>'null'\<close>.
\<close>

definition path_text :: "path_value \<Rightarrow> string" where
  "path_text v = (case v of Null \<Rightarrow> ''null'' | Undefined \<Rightarrow> ''undefined'' | Path p \<Rightarrow> p)"

text \<open>\<open>now\<close> is the reading of \<^verbatim>\<open>Date.now()\<close>.\<close>

definition startGame_timed :: "int \<Rightarrow> page \<Rightarrow> page" where
  "startGame_timed now s =
     (let s1 = s\<lparr>gameImageSrc := Some (path_text (compositeImagePath s))\<rparr>;
          s2 = showStep_timed Game s1;
          s3 = s2\<lparr>startTime := Some now\<rparr>;
          (tid, s4) = setInterval s3;
          s5 = s4\<lparr>timerInterval := Some tid\<rparr>;
          s6 = s5\<lparr>clicks := 0\<rparr>;
          s7 = s6\<lparr>clicksDisplay := clicks s6\<rparr>
      in s7\<lparr>gameActive := True\<rparr>)"

text \<open>\<^verbatim>\<open>Date.now() - startTime\<close>; \<^verbatim>\<open>null\<close> counts as 0 in the subtraction.\<close>

definition sinceStart :: "int \<Rightarrow> page \<Rightarrow> int" where
  "sinceStart now s = now - (case startTime s of None \<Rightarrow> 0 | Some t \<Rightarrow> t)"

text \<open>\<^verbatim>\<open>if (!startTime) return;\<close> leaves on \<^verbatim>\<open>null\<close> and on 0.\<close>

definition updateTimer :: "int \<Rightarrow> page \<Rightarrow> page" where
  "updateTimer now s =
     (if startTime s = None \<or> startTime s = Some 0 then s
      else
        let elapsed = sinceStart now s div 1000;
            minutes = elapsed div 60;
            seconds = js_rem elapsed 60
        in s\<lparr>timerDisplay := Some (minutes, seconds)\<rparr>)"

definition calculateScore :: "int \<Rightarrow> int \<Rightarrow> int" where
  "calculateScore clicks' seconds =
     (let baseScore = 1000;
          clickPenalty = clicks' * 50;
          timePenalty = seconds * 10;
          score = max 0 (baseScore - clickPenalty - timePenalty)
      in score)"

definition showResults :: "nat \<Rightarrow> int \<Rightarrow> int \<Rightarrow> page \<Rightarrow> page" where
  "showResults clicks' timeElapsed score s =
     (let minutes = timeElapsed div 60;
          seconds = js_rem timeElapsed 60;
          s1 = s\<lparr>finalTime := Some (minutes, seconds)\<rparr>;
          s2 = s1\<lparr>finalClicks := clicks'\<rparr>;
          s3 = s2\<lparr>finalScore := score\<rparr>
      in showStep_timed Results s3)"

definition gameImage_click_timed :: "click_event \<Rightarrow> int \<Rightarrow> page \<Rightarrow> page" where
  "gameImage_click_timed e now s =
     (if \<not> gameActive s then s
      else
        let s1 = s\<lparr>clicks := clicks s + 1\<rparr>;
            s2 = s1\<lparr>clicksDisplay := clicks s1\<rparr>;
            m = newMarker e s2;
            s3 = s2\<lparr>nodeCount := Suc (nodeCount s2)\<rparr>
        in if isHit e (batmanLocation s3) then
             let s4 = clearInterval (timerInterval s3) s3;
                 s5 = s4\<lparr>gameActive := False\<rparr>;
                 s6 = appendMarker (m\<lparr>marker_success := True\<rparr>) s5;
                 timeElapsed = sinceStart now s6 div 1000;
                 score = calculateScore (int (clicks s6)) timeElapsed
             in setTimeout (ShowResults timeElapsed score) 1000 s6
           else
             let s4 = appendMarker m s3;
                 s5 = s4\<lparr>message := NotQuite\<rparr>;
                 s6 = s5\<lparr>messageClass := ''message try-again''\<rparr>
             in setTimeout (RemoveMarker (marker_id m)) 1000 s6)"

text \<open>\<^verbatim>\<open>if (timerInterval)\<close>: \<^verbatim>\<open>null\<close> and 0 are falsy.\<close>

definition resetGame_timed :: "page \<Rightarrow> page" where
  "resetGame_timed s =
     (let s1 = s\<lparr>gameActive := False\<rparr>;
          s2 = s1\<lparr>clicks := 0\<rparr>;
          s3 = s2\<lparr>startTime := None\<rparr>;
          s4 = s3\<lparr>compositeImagePath := Null\<rparr>;
          s5 = s4\<lparr>message := Empty\<rparr>;
          s6 = s5\<lparr>fileInputValue := ''''\<rparr>;
          s7 = s6\<lparr>uploadStatus := Empty\<rparr>;
          s8 = (if timerInterval s7 \<noteq> None \<and> timerInterval s7 \<noteq> Some 0
                then (clearInterval (timerInterval s7) s7)\<lparr>timerInterval := None\<rparr>
                else s7);
          s9 = removeAllMarkers s8
      in showStep_timed Upload s9)"

section \<open>The script calling the processing service\<close>

text \<open>
  The body of a reply of \<^verbatim>\<open>/api/process\<close> as far as the script reads it. A field the
  script guards against (\<^verbatim>\<open>||\<close>, \<^verbatim>\<open>?.\<close>, \<^verbatim>\<open>!== undefined\<close>) is optional, \<open>None\<close> when
  absent; \<open>visible_ratio\<close> and \<open>low_saliency_score\<close> are those of \<^verbatim>\<open>data.reason?.sprite\<close>.
\<close>

record batman_data =
  x_norm :: number
  y_norm :: number
  batman_radius :: "number option"

record process_data =
  batman :: "batman_data option"
  output_image_url :: string
  objects_detected :: int
  best_object :: "string option"
  visible_ratio :: "number option"
  low_saliency_score :: "number option"
  error_field :: "string option"

datatype process_reply =
    Thrown string
    \<comment> \<open>\<^verbatim>\<open>fetch\<close> or \<^verbatim>\<open>res.json()\<close> threw, with this message\<close>
  | Reply bool process_data
    \<comment> \<open>\<^verbatim>\<open>res.ok\<close> and the parsed body\<close>

text \<open>\<^verbatim>\<open>a || b\<close> on a number: 0, not-a-number and an absent value are falsy.\<close>

definition number_or :: "number option \<Rightarrow> number \<Rightarrow> number" where
  "number_or a b =
     (case a of None \<Rightarrow> b | Some v \<Rightarrow> if v = Fin 0 \<or> v = NaN then b else v)"

text \<open>\<^verbatim>\<open>a || b\<close> on a string: the empty string and an absent value are falsy.\<close>

definition string_or :: "string option \<Rightarrow> string \<Rightarrow> string" where
  "string_or a b = (case a of None \<Rightarrow> b | Some v \<Rightarrow> if v = [] then b else v)"

definition showStep_api :: "step \<Rightarrow> page \<Rightarrow> page" where
  "showStep_api st s =
     s\<lparr>activeStep := (if st = Upload \<or> st = Game then Some st else None)\<rparr>"

definition startGame_api :: "string \<Rightarrow> page \<Rightarrow> page" where
  "startGame_api imagePath s =
     (let s1 = s\<lparr>gameImageSrc := Some imagePath\<rparr>;
          s2 = showStep_api Game s1;
          s3 = s2\<lparr>gameActive := True\<rparr>;
          s4 = s3\<lparr>attempts := 0\<rparr>;
          s5 = s4\<lparr>attemptsDisplay := attempts s4\<rparr>;
          s6 = s5\<lparr>message := Empty\<rparr>;
          s7 = s6\<lparr>messageClass := ''message''\<rparr>
      in s7\<lparr>giveUpBtnDisplay := ''inline-block''\<rparr>)"

text \<open>
  \<^verbatim>\<open>showLoading(state, text)\<close>; the page may have no \<^verbatim>\<open>loadingOverlay\<close> element. The
  source's ellipsis character is written as three dots.
\<close>

definition showLoading :: "bool \<Rightarrow> string \<Rightarrow> page \<Rightarrow> page" where
  "showLoading state txt s =
     (if \<not> hasLoadingOverlay s then s
      else
        let s1 = s\<lparr>loadingOverlayDisplay := (if state then ''flex'' else ''none'')\<rparr>;
            s2 = (if state then s1\<lparr>loadingOverlayText := txt\<rparr> else s1)
        in s2\<lparr>buttonsDisabled := state\<rparr>)"

text \<open>\<^verbatim>\<open>processUploadedImage\<close> up to its first \<^verbatim>\<open>await\<close>.\<close>

definition processUploadedImage_begin :: "upload_file \<Rightarrow> page \<Rightarrow> page" where
  "processUploadedImage_begin f s =
     (if processing s then s
      else
        let s1 = s\<lparr>processing := True\<rparr>;
            s2 = s1\<lparr>message := ProcessingYolo\<rparr>;
            s3 = s2\<lparr>messageClass := ''message''\<rparr>;
            s4 = showLoading True ''Processing image with YOLO + depth...'' s3
        in s4\<lparr>fetches := fetches s4 @ [(''/api/process'', f)]\<rparr>)"

text \<open>The \<^verbatim>\<open>catch\<close> block.\<close>

definition processUploadedImage_catch :: "text_content \<Rightarrow> page \<Rightarrow> page" where
  "processUploadedImage_catch err s =
     (let s1 = s\<lparr>message := err\<rparr>
      in s1\<lparr>messageClass := ''message try-again''\<rparr>)"

text \<open>
  The \<^verbatim>\<open>try\<close> block after \<^verbatim>\<open>res.ok\<close> was found true. \<open>stamp\<close> is the text of
  \<^verbatim>\<open>Date.now()\<close> in the image URL. The percentages of the message are kept as numbers.
\<close>

definition processUploadedImage_ok :: "process_data \<Rightarrow> string \<Rightarrow> page \<Rightarrow> page" where
  "processUploadedImage_ok d stamp s =
     (case batman d of
        None \<Rightarrow> processUploadedImage_catch ErrorTypeError s
      | Some b \<Rightarrow>
          let s1 = s\<lparr>batmanLocation := (batmanLocation s)\<lparr>loc_x := x_norm b\<rparr>\<rparr>;
              s2 = s1\<lparr>batmanLocation := (batmanLocation s1)\<lparr>loc_y := y_norm b\<rparr>\<rparr>;
              s3 = s2\<lparr>batmanLocation :=
                        (batmanLocation s2)\<lparr>loc_radius := number_or (batman_radius b) (Fin 42)\<rparr>\<rparr>;
              s4 = startGame_api (output_image_url d @ ''?t='' @ stamp) s3;
              vis = visible_ratio d;
              sal = low_saliency_score d;
              bestObj = string_or (best_object d) ''none'';
              s5 = (case (vis, sal) of
                      (Some v, Some l) \<Rightarrow>
                        s4\<lparr>message :=
                             DetectedWithMetrics (objects_detected d) bestObj
                               (js_mul v (Fin 100)) (js_mul l (Fin 100))\<rparr>
                    | _ \<Rightarrow> s4\<lparr>message := Detected (objects_detected d) bestObj\<rparr>)
          in s5\<lparr>messageClass := ''message''\<rparr>)"

text \<open>\<^verbatim>\<open>processUploadedImage\<close> from the reply on, with its \<^verbatim>\<open>finally\<close> block.\<close>

definition processUploadedImage_resume :: "process_reply \<Rightarrow> string \<Rightarrow> page \<Rightarrow> page" where
  "processUploadedImage_resume r stamp s =
     (let s1 = (case r of
                  Thrown msg \<Rightarrow> processUploadedImage_catch (ErrorText msg) s
                | Reply ok d \<Rightarrow>
                    if \<not> ok then
                      processUploadedImage_catch
                        (ErrorText (string_or (error_field d) ''Failed to process image'')) s
                    else processUploadedImage_ok d stamp s);
          s2 = showLoading False ''Processing...'' s1
      in s2\<lparr>processing := False\<rparr>)"

definition fileInput_change_api :: "upload_file option \<Rightarrow> page \<Rightarrow> page" where
  "fileInput_change_api f s =
     (case f of None \<Rightarrow> s
      | Some fl \<Rightarrow> if isImageFile f then processUploadedImage_begin fl s else s)"

definition uploadArea_drop_api :: "upload_file option \<Rightarrow> page \<Rightarrow> page" where
  "uploadArea_drop_api f s =
     (let s1 = s\<lparr>uploadAreaBackground := ''''\<rparr>
      in case f of None \<Rightarrow> s1
         | Some fl \<Rightarrow> if isImageFile f then processUploadedImage_begin fl s1 else s1)"

definition gameImage_click_api :: "click_event \<Rightarrow> page \<Rightarrow> page" where
  "gameImage_click_api e s =
     (if \<not> gameActive s then s
      else
        let s1 = s\<lparr>attempts := attempts s + 1\<rparr>;
            s2 = s1\<lparr>attemptsDisplay := attempts s1\<rparr>;
            m = newMarker e s2;
            s3 = s2\<lparr>nodeCount := Suc (nodeCount s2)\<rparr>
        in if isHit e (batmanLocation s3) then
             let s4 = appendMarker (m\<lparr>marker_success := True\<rparr>) s3;
                 s5 = s4\<lparr>message := FoundBatman (attempts s4)\<rparr>;
                 s6 = s5\<lparr>messageClass := ''message success''\<rparr>;
                 s7 = s6\<lparr>gameActive := False\<rparr>;
                 s8 = s7\<lparr>playAgainBtnDisplay := ''inline-block''\<rparr>
             in s8\<lparr>giveUpBtnDisplay := ''none''\<rparr>
           else
             let s4 = appendMarker m s3;
                 s5 = s4\<lparr>message := NotQuite\<rparr>;
                 s6 = s5\<lparr>messageClass := ''message try-again''\<rparr>
             in setTimeout (RemoveMarker (marker_id m)) 1000 s6)"

text \<open>\<open>w\<close> and \<open>h\<close> are \<^verbatim>\<open>gameImage.width\<close> and \<^verbatim>\<open>gameImage.height\<close>.\<close>

definition revealBatmanMarker :: "32 word \<Rightarrow> 32 word \<Rightarrow> page \<Rightarrow> page" where
  "revealBatmanMarker w h s =
     (let revealX = js_mul (loc_x (batmanLocation s)) (of_unsigned_long w);
          revealY = js_mul (loc_y (batmanLocation s)) (of_unsigned_long h);
          m = \<lparr>marker_id = nodeCount s, marker_left = revealX, marker_top = revealY,
               marker_success = True\<rparr>;
          s1 = s\<lparr>nodeCount := Suc (nodeCount s)\<rparr>
      in appendMarker m s1)"

definition giveUp :: "32 word \<Rightarrow> 32 word \<Rightarrow> page \<Rightarrow> page" where
  "giveUp w h s =
     (if \<not> gameActive s then s
      else
        let s1 = s\<lparr>gameActive := False\<rparr>;
            s2 = revealBatmanMarker w h s1;
            s3 = s2\<lparr>message := BatmanRevealed\<rparr>;
            s4 = s3\<lparr>messageClass := ''message try-again''\<rparr>;
            s5 = s4\<lparr>playAgainBtnDisplay := ''inline-block''\<rparr>
        in s5\<lparr>giveUpBtnDisplay := ''none''\<rparr>)"

definition playAgain_api :: "page \<Rightarrow> page" where
  "playAgain_api s =
     (let s1 = removeAllMarkers s;
          s2 = s1\<lparr>gameActive := True\<rparr>;
          s3 = s2\<lparr>attempts := 0\<rparr>;
          s4 = s3\<lparr>attemptsDisplay := attempts s3\<rparr>;
          s5 = s4\<lparr>message := Empty\<rparr>;
          s6 = s5\<lparr>messageClass := ''message''\<rparr>;
          s7 = s6\<lparr>playAgainBtnDisplay := ''none''\<rparr>
      in s7\<lparr>giveUpBtnDisplay := ''inline-block''\<rparr>)"

definition resetGame_api :: "page \<Rightarrow> page" where
  "resetGame_api s =
     (let s1 = s\<lparr>gameActive := False\<rparr>;
          s2 = s1\<lparr>attempts := 0\<rparr>;
          s3 = s2\<lparr>message := Empty\<rparr>;
          s4 = s3\<lparr>messageClass := ''message''\<rparr>;
          s5 = s4\<lparr>playAgainBtnDisplay := ''none''\<rparr>;
          s6 = s5\<lparr>giveUpBtnDisplay := ''none''\<rparr>;
          s7 = s6\<lparr>fileInputValue := ''''\<rparr>;
          s8 = removeAllMarkers s7
      in showStep_api Upload s8)"

section \<open>The browser running the callbacks\<close>

text \<open>What each callback handed to \<^verbatim>\<open>setTimeout\<close> does when it runs.\<close>

definition runTask :: "task \<Rightarrow> page \<Rightarrow> page" where
  "runTask t s =
     (case t of
        RemoveMarker i \<Rightarrow> removeMarker i s
      | ShowResults te sc \<Rightarrow> showResults (clicks s) te sc s
      | ShowStep st \<Rightarrow> showStep_timed st s)"

text \<open>The \<open>i\<close>-th pending timeout expires: it leaves the queue and its callback runs.\<close>

definition timeout_fires :: "nat \<Rightarrow> page \<Rightarrow> page" where
  "timeout_fires i s =
     (if i < length (timeouts s)
      then runTask (snd (timeouts s ! i))
             (s\<lparr>timeouts := take i (timeouts s) @ drop (Suc i) (timeouts s)\<rparr>)
      else s)"

text \<open>
  A tick of the interval timer \<open>tid\<close>: the browser calls \<^verbatim>\<open>updateTimer\<close> if that timer is
  still running, and nothing otherwise.
\<close>

definition interval_fires :: "nat \<Rightarrow> int \<Rightarrow> page \<Rightarrow> page" where
  "interval_fires tid now s = (if tid \<in> intervals s then updateTimer now s else s)"

text \<open>
  What can happen to a page: the listeners a script registers, the callbacks it hands to
  the browser (timeouts, the interval, the replies to its requests), and the global
  functions that no script calls and the page's buttons do (\<^verbatim>\<open>playAgain\<close>,
  \<^verbatim>\<open>resetGame\<close>, \<^verbatim>\<open>giveUp\<close>, and \<^verbatim>\<open>startGame\<close> of the timed script). A click carries
  the reading of \<^verbatim>\<open>Date.now()\<close> at its time, a reply of \<^verbatim>\<open>/api/process\<close> the text of
  that reading.
\<close>

datatype event =
    Click click_event int
  | TimeoutExpires nat
  | IntervalTicks nat int
  | FileChosen "upload_file option"
  | FileDropped "upload_file option"
  | DragOver
  | DragLeave
  | StartGame int
  | UploadReplied upload_reply
  | ProcessReplied process_reply string
  | GiveUp "32 word" "32 word"
  | PlayAgain
  | ResetGame


fun handle_timed :: "event \<Rightarrow> page \<Rightarrow> page" where
  "handle_timed (Click e now) s = gameImage_click_timed e now s"
| "handle_timed (TimeoutExpires i) s = timeout_fires i s"
| "handle_timed (IntervalTicks tid now) s = interval_fires tid now s"
| "handle_timed (FileChosen f) s = fileInput_change_timed f s"
| "handle_timed (FileDropped f) s = uploadArea_drop_timed f s"
| "handle_timed DragOver s = uploadArea_dragover s"
| "handle_timed DragLeave s = uploadArea_dragleave s"
| "handle_timed (StartGame now) s = startGame_timed now s"
| "handle_timed (UploadReplied r) s = uploadAndProcess_resume r s"
| "handle_timed ResetGame s = resetGame_timed s"
| "handle_timed _ s = s"

fun handle_api :: "event \<Rightarrow> page \<Rightarrow> page" where
  "handle_api (Click e now) s = gameImage_click_api e s"
| "handle_api (TimeoutExpires i) s = timeout_fires i s"
| "handle_api (FileChosen f) s = fileInput_change_api f s"
| "handle_api (FileDropped f) s = uploadArea_drop_api f s"
| "handle_api DragOver s = uploadArea_dragover s"
| "handle_api DragLeave s = uploadArea_dragleave s"
| "handle_api (ProcessReplied r stamp) s =
     (if processing s then processUploadedImage_resume r stamp s else s)"
| "handle_api (GiveUp w h) s = giveUp w h s"
| "handle_api PlayAgain s = playAgain_api s"
| "handle_api ResetGame s = resetGame_api s"
| "handle_api _ s = s"


definition run_timed :: "event list \<Rightarrow> page \<Rightarrow> page" where
  "run_timed evs s = fold handle_timed evs s"

definition run_api :: "event list \<Rightarrow> page \<Rightarrow> page" where
  "run_api evs s = fold handle_api evs s"

text \<open>
  The page as the scripts' own declarations leave it, with an empty document: no
  marker, no text, the upload step shown.
\<close>

definition initial_page :: page where
  "initial_page =
     \<lparr>gameActive = False, attempts = 0, clicks = 0, startTime = None,
      timerInterval = None, compositeImagePath = Null, processing = False,
      batmanLocation = \<lparr>loc_x = Fin 0.5, loc_y = Fin 0.5, loc_radius = Fin 50\<rparr>,
      fileInputValue = '''', activeStep = Some Upload, gameImageSrc = None,
      markers = [], message = Empty, messageClass = ''message'',
      attemptsDisplay = 0, clicksDisplay = 0, timerDisplay = None,
      uploadStatus = Empty, playAgainBtnDisplay = ''none'', giveUpBtnDisplay = ''none'',
      uploadAreaBackground = '''', hasLoadingOverlay = True,
      loadingOverlayDisplay = ''none'', loadingOverlayText = '''',
      buttonsDisabled = False, finalTime = None, finalClicks = 0, finalScore = 0,
      nodeCount = 0, timeouts = [], intervals = {}, timerCount = 0, fetches = []\<rparr>"

section \<open>The specification's notions, and sample inputs\<close>

text \<open>
  The specification's distance, in its own words: the Euclidean distance between the
  click point and the target point, on exact numbers.
\<close>

definition euclidean_distance :: "real \<times> real \<Rightarrow> real \<times> real \<Rightarrow> real" where
  "euclidean_distance p q = sqrt ((fst p - fst q)\<^sup>2 + (snd p - snd q)\<^sup>2)"

text \<open>A real number that is a double: rounding leaves it as it is.\<close>

definition is_double :: "real \<Rightarrow> bool" where
  "is_double x = (round64 x = Fin x)"

text \<open>
  No step of the hit test rounds: for the click at client position \<open>(cx, cy)\<close> on an
  image whose box starts at \<open>(l, t)\<close> and is rendered \<open>w\<close> by \<open>h\<close>, with the target at the
  fractions \<open>(x, y)\<close>, every intermediate result of the handler is a double.
\<close>

definition exactly_computed ::
  "real \<Rightarrow> real \<Rightarrow> real \<Rightarrow> real \<Rightarrow> real \<Rightarrow> real \<Rightarrow> real \<Rightarrow> real \<Rightarrow> bool" where
  "exactly_computed cx cy l t x y w h =
     (is_double (cx - l) \<and> is_double (cy - t)
      \<and> is_double (x * w) \<and> is_double (y * h)
      \<and> is_double (cx - l - x * w) \<and> is_double (cy - t - y * h)
      \<and> is_double ((cx - l - x * w) * (cx - l - x * w))
      \<and> is_double ((cy - t - y * h) * (cy - t - y * h))
      \<and> is_double ((cx - l - x * w) * (cx - l - x * w) + (cy - t - y * h) * (cy - t - y * h))
      \<and> is_double (sqrt ((cx - l - x * w) * (cx - l - x * w)
                          + (cy - t - y * h) * (cy - t - y * h))))"

text \<open>
  Node identities are fresh: every attached marker, and every marker a pending timeout
  is to remove, was made by an earlier \<^verbatim>\<open>createElement\<close>, so the next node differs
  from all of them.
\<close>

definition removes_below :: "nat \<Rightarrow> nat \<times> task \<Rightarrow> bool" where
  "removes_below n p = (case snd p of RemoveMarker i \<Rightarrow> i < n | _ \<Rightarrow> True)"


text \<open>
  A marker that is attached, was made by an earlier \<^verbatim>\<open>createElement\<close>, and that no
  pending timeout is to remove.
\<close>

definition kept :: "marker \<Rightarrow> page \<Rightarrow> bool" where
  "kept m s =
     (m \<in> set (markers s) \<and> marker_id m < nodeCount s
      \<and> list_all (\<lambda>p. snd p \<noteq> RemoveMarker (marker_id m)) (timeouts s))"


text \<open>
  A click at \<open>(cx, cy)\<close> on the image rendered 800 by 600 at the origin of the viewport
  (the specification's scenario).
\<close>

definition scenario_click :: "real \<Rightarrow> real \<Rightarrow> click_event" where
  "scenario_click cx cy =
     \<lparr>clientX = Fin cx, clientY = Fin cy, rect_left = Fin 0, rect_top = Fin 0,
      image_width = 800, image_height = 600\<rparr>"

definition text_file :: upload_file where
  "text_file = \<lparr>file_name = ''notes.txt'', file_type = ''text/plain''\<rparr>"

definition photo_file :: upload_file where
  "photo_file = \<lparr>file_name = ''room.jpg'', file_type = ''image/jpeg''\<rparr>"

text \<open>A reply of the processing service with the given target and radius field.\<close>

definition reply_data :: "real \<Rightarrow> real \<Rightarrow> number option \<Rightarrow> process_data" where
  "reply_data x y r =
     \<lparr>batman = Some \<lparr>x_norm = Fin x, y_norm = Fin y, batman_radius = r\<rparr>,
      output_image_url = ''/outputs/result.png'', objects_detected = 3,
      best_object = Some ''chair'', visible_ratio = Some (Fin 0.5),
      low_saliency_score = Some (Fin 0.75), error_field = None\<rparr>"

definition sample_data :: "number option \<Rightarrow> process_data" where
  "sample_data r = reply_data 0.25 0.75 r"

text \<open>The api script's page once such a reply has been processed.\<close>

definition page_after :: "process_data \<Rightarrow> page" where
  "page_after d =
     run_api [FileChosen (Some photo_file), ProcessReplied (Reply True d) ''1700000000000'']
       initial_page"

definition processed_page :: "number option \<Rightarrow> page" where
  "processed_page r = page_after (sample_data r)"

text \<open>The double nearest to 0.1, which is a little more than 0.1.\<close>

definition tenth :: real where
  "tenth = 3602879701896397 / 2 ^ 55"

text \<open>The page after a reply that puts the target at \<open>(0.1, 0.5)\<close> with radius 50.\<close>

definition tenth_page :: page where
  "tenth_page = page_after (reply_data tenth 0.5 (Some (Fin 50)))"


text \<open>
  Two uploads sent one after the other in the timed script, so that two timeouts are to
  show the ready step; the game is started after the first has shown it, and started
  again when the second shows it once more.
\<close>

definition double_start :: "event list" where
  "double_start =
     [FileChosen (Some photo_file), FileChosen (Some photo_file),
      UploadReplied (UploadResult True (Some ''/uploaded-images/upload-1.jpg'')),
      UploadReplied (UploadResult True (Some ''/uploaded-images/upload-2.jpg'')),
      TimeoutExpires 0, StartGame 1000, TimeoutExpires 0, StartGame 2000]"

definition double_started :: page where
  "double_started = run_timed double_start initial_page"

text \<open>A timed round started once at clock reading 1000.\<close>

definition started :: page where
  "started = run_timed [StartGame 1000] initial_page"

text \<open>
  The round started twice, then a tick of the second timer at clock reading 5000 and, at
  the same reading, a click on the target.
\<close>

definition double_won :: page where
  "double_won =
     run_timed (double_start @ [IntervalTicks 2 5000, Click (scenario_click 400 300) 5000])
       initial_page"

text \<open>The events of the timed script that set the click counter back to 0.\<close>

fun restarts :: "event \<Rightarrow> bool" where
  "restarts (StartGame now) = True"
| "restarts ResetGame = True"
| "restarts _ = False"

definition no_restart :: "event list \<Rightarrow> bool" where
  "no_restart evs = list_all (\<lambda>ev. \<not> restarts ev) evs"

text \<open>
  A timed round started at clock reading 1000 with two misses behind it, whose markers
  have been removed again.
\<close>

definition two_misses :: page where
  "two_misses =
     run_timed [Click (scenario_click 300 300) 5000, TimeoutExpires 0,
                Click (scenario_click 451 300) 9000, TimeoutExpires 0] started"

text \<open>A timed round started at clock reading 10000, when the clock is set back.\<close>

definition started_late :: page where
  "started_late = run_timed [StartGame 10000] initial_page"

section \<open>Auxiliary facts\<close>

lemmas handler_defs =
  gameImage_click_plain_def gameImage_click_timed_def gameImage_click_api_def
  newMarker_def appendMarker_def setTimeout_def clearInterval_def Let_def

lemmas sample_defs =
  initial_page_def scenario_click_def startGame_plain_def startGame_timed_def
  startGame_api_def showStep_plain_def showStep_timed_def showStep_api_def
  setInterval_def path_text_def

lemmas hit_test_defs =
  isHit_def distance_def clickX_def clickY_def batmanX_def batmanY_def
  of_unsigned_long_def Math_pow_2_def

subsection \<open>Rounding\<close>

lemma floor_log2_bounds:
  assumes "x \<noteq> 0"
  shows "2 powi \<lfloor>log 2 \<bar>x\<bar>\<rfloor> \<le> \<bar>x\<bar> \<and> \<bar>x\<bar> < 2 powi (\<lfloor>log 2 \<bar>x\<bar>\<rfloor> + 1)"
proof -
  let ?k = "\<lfloor>log 2 \<bar>x\<bar>\<rfloor>"
  have pos: "0 < \<bar>x\<bar>"
    using assms by simp
  have "(2::real) powr real_of_int ?k = 2 powi ?k"
    by (simp add: powr_real_of_int')
  moreover have "(2::real) powr (real_of_int ?k + 1) = 2 powi (?k + 1)"
    using powr_real_of_int' [of "2::real" "?k + 1"] by simp
  ultimately show ?thesis
    using floor_log_eq_powr_iff [of "\<bar>x\<bar>" 2 ?k] pos by simp
qed

lemma floor_log2_eq:
  assumes "2 powi k \<le> \<bar>x\<bar>" and "\<bar>x\<bar> < 2 powi (k + 1)"
  shows "\<lfloor>log 2 \<bar>x\<bar>\<rfloor> = k"
proof -
  have pos: "0 < \<bar>x\<bar>"
    using assms(1) zero_less_power_int [of "2::real" k] by linarith
  have "(2::real) powr real_of_int k = 2 powi k"
    by (simp add: powr_real_of_int')
  moreover have "(2::real) powr (real_of_int k + 1) = 2 powi (k + 1)"
    using powr_real_of_int' [of "2::real" "k + 1"] by simp
  ultimately show ?thesis
    using assms floor_log_eq_powr_iff [of "\<bar>x\<bar>" 2 k] pos by simp
qed

text \<open>Rounding a number whose binade is known.\<close>

lemma round64_binade:
  assumes "2 powi k \<le> \<bar>x\<bar>" and "\<bar>x\<bar> < 2 powi (k + 1)"
  shows "round64 x =
     (let u = 2 powi (max k (- 1022) - 52);
          r = of_int (round_ties_even (x / u)) * u
      in if 2 ^ 1024 \<le> \<bar>r\<bar> then Infinity (0 < r) else Fin r)"
proof -
  have "x \<noteq> 0"
  proof
    assume "x = 0"
    with assms(1) have "(2::real) powi k \<le> 0"
      by simp
    moreover have "0 < (2::real) powi k"
      by simp
    ultimately show False
      by linarith
  qed
  then show ?thesis
    by (simp add: round64_def ulp_exponent_def floor_log2_eq [OF assms])
qed

lemma round_ties_even_of_int: "round_ties_even (of_int n) = n"
  by (simp add: round_ties_even_def)

lemma round_ties_even_Ints: "y \<in> \<int> \<Longrightarrow> of_int (round_ties_even y) = y"
  by (auto elim!: Ints_cases simp add: round_ties_even_of_int)

lemma round64_exact:
  assumes "x \<noteq> 0" and "x / 2 powi ulp_exponent x \<in> \<int>" and "\<bar>x\<bar> < 2 ^ 1024"
  shows "round64 x = Fin x"
proof -
  have "of_int (round_ties_even (x / 2 powi ulp_exponent x)) * 2 powi ulp_exponent x = x"
    using round_ties_even_Ints [OF assms(2)] by simp
  then show ?thesis
    using assms(1,3) by (simp add: round64_def Let_def)
qed

text \<open>Every integer of magnitude up to \<open>2 ^ 53\<close> is a double.\<close>

lemma round64_Ints:
  assumes "x \<in> \<int>" and "\<bar>x\<bar> \<le> 2 ^ 53"
  shows "round64 x = Fin x"
proof (cases "x = 0")
  case True
  then show ?thesis
    by (simp add: round64_def)
next
  case False
  define k where "k = \<lfloor>log 2 \<bar>x\<bar>\<rfloor>"
  have bounds: "2 powi k \<le> \<bar>x\<bar>" "\<bar>x\<bar> < 2 powi (k + 1)"
    using floor_log2_bounds [OF False] by (simp_all add: k_def)
  have one: "1 \<le> \<bar>x\<bar>"
    using assms(1) False by (auto elim!: Ints_cases)
  have lower: "0 \<le> k"
  proof (rule ccontr)
    assume "\<not> 0 \<le> k"
    then have "k + 1 \<le> 0"
      by linarith
    then have "(2::real) powi (k + 1) \<le> 2 powi 0"
      by (intro power_int_increasing) simp_all
    with bounds(2) one show False
      by simp
  qed
  have upper: "k \<le> 53"
  proof (rule ccontr)
    assume "\<not> k \<le> 53"
    then have "54 \<le> k"
      by linarith
    then have "(2::real) powi 54 \<le> 2 powi k"
      by (intro power_int_increasing) simp_all
    with bounds(1) assms(2) show False
      by simp
  qed
  have ulp: "ulp_exponent x = k - 52"
    using lower by (simp add: ulp_exponent_def k_def)
  have "x / 2 powi (k - 52) \<in> \<int>"
  proof (cases "k \<le> 52")
    case True
    then have "(2::real) powi (k - 52) = inverse (2 ^ nat (52 - k))"
      using power_int_minus [of "2::real" "52 - k"] by (simp add: power_int_def)
    then have "x / 2 powi (k - 52) = x * 2 ^ nat (52 - k)"
      by (simp add: field_simps)
    then show ?thesis
      using assms(1) by simp
  next
    case False
    with upper have k: "k = 53"
      by linarith
    then have "2 ^ 53 \<le> \<bar>x\<bar>"
      using bounds(1) by simp
    with assms(2) have "\<bar>x\<bar> = 2 ^ 53"
      by simp
    then have "x = 2 ^ 53 \<or> x = - (2 ^ 53)"
      by (auto simp add: abs_if split: if_splits)
    then show ?thesis
      using k by auto
  qed
  then show ?thesis
    using False assms(2) ulp by (intro round64_exact) simp_all
qed

lemma is_double_Ints: "x \<in> \<int> \<Longrightarrow> \<bar>x\<bar> \<le> 2 ^ 53 \<Longrightarrow> is_double x"
  by (simp add: is_double_def round64_Ints)

text \<open>The square roots the sample clicks need.\<close>

lemma sample_roots:
  "sqrt 1600 = 40" "sqrt 2500 = 50" "sqrt 2601 = 51" "sqrt 10000 = 100"
  by (rule real_sqrt_unique; simp)+

text \<open>The product \<^verbatim>\<open>0.1 * 800\<close>: a little more than 80 before rounding, 80 after.\<close>

lemma tenth_times_800: "round64 (tenth * 800) = Fin 80" "80 < tenth * 800"
proof -
  show "round64 (tenth * 800) = Fin 80"
    by (subst round64_binade [where k = 6])
      (simp_all add: tenth_def round_ties_even_def Let_def)
  show "80 < tenth * 800"
    by (simp add: tenth_def)
qed

text \<open>\<open>tenth\<close> is the double that the number 0.1 is read as.\<close>

lemma tenth_nearest: "round64 0.1 = Fin tenth" "is_double tenth"
proof -
  show "round64 0.1 = Fin tenth"
    by (subst round64_binade [where k = "- 4"])
      (simp_all add: tenth_def round_ties_even_def Let_def power_int_minus)
  show "is_double tenth"
    unfolding is_double_def
    by (subst round64_binade [where k = "- 4"])
      (simp_all add: tenth_def round_ties_even_def Let_def power_int_minus)
qed

subsection \<open>The hit test\<close>

text \<open>Where no step rounds, the handlers' test is the exact Euclidean one.\<close>

lemma isHit_exactly_computed:
  assumes "clientX e = Fin cx" and "clientY e = Fin cy"
    and "rect_left e = Fin l" and "rect_top e = Fin t"
    and "loc_x loc = Fin x" and "loc_y loc = Fin y" and "loc_radius loc = Fin r"
    and "exactly_computed cx cy l t x y (real (unat (image_width e)))
           (real (unat (image_height e)))"
  shows "isHit e loc =
           (euclidean_distance (cx - l, cy - t)
              (x * real (unat (image_width e)), y * real (unat (image_height e))) \<le> r)"
  using assms
  by (simp add: hit_test_defs exactly_computed_def is_double_def euclidean_distance_def
      power2_eq_square not_sum_squares_lt_zero)

subsection \<open>The two branches of the click handlers\<close>

lemma click_plain_hit:
  assumes "gameActive s" and "isHit e (batmanLocation s)"
  shows "gameImage_click_plain e s =
           s\<lparr>attempts := attempts s + 1, attemptsDisplay := attempts s + 1,
             nodeCount := Suc (nodeCount s),
             markers := markers s @ [\<lparr>marker_id = nodeCount s, marker_left = clickX e,
                                      marker_top = clickY e, marker_success = True\<rparr>],
             message := FoundBatmanBat (attempts s + 1),
             messageClass := ''message success'', gameActive := False,
             playAgainBtnDisplay := ''inline-block''\<rparr>"
  using assms by (simp add: handler_defs)

lemma click_plain_miss:
  assumes "gameActive s" and "\<not> isHit e (batmanLocation s)"
  shows "gameImage_click_plain e s =
           s\<lparr>attempts := attempts s + 1, attemptsDisplay := attempts s + 1,
             nodeCount := Suc (nodeCount s),
             markers := markers s @ [\<lparr>marker_id = nodeCount s, marker_left = clickX e,
                                      marker_top = clickY e, marker_success = False\<rparr>],
             message := NotQuite, messageClass := ''message try-again'',
             timeouts := timeouts s @ [(1000, RemoveMarker (nodeCount s))]\<rparr>"
  using assms by (simp add: handler_defs)

lemma click_api_hit:
  assumes "gameActive s" and "isHit e (batmanLocation s)"
  shows "gameImage_click_api e s =
           s\<lparr>attempts := attempts s + 1, attemptsDisplay := attempts s + 1,
             nodeCount := Suc (nodeCount s),
             markers := markers s @ [\<lparr>marker_id = nodeCount s, marker_left = clickX e,
                                      marker_top = clickY e, marker_success = True\<rparr>],
             message := FoundBatman (attempts s + 1),
             messageClass := ''message success'', gameActive := False,
             playAgainBtnDisplay := ''inline-block'', giveUpBtnDisplay := ''none''\<rparr>"
  using assms by (simp add: handler_defs)

lemma click_api_miss:
  assumes "gameActive s" and "\<not> isHit e (batmanLocation s)"
  shows "gameImage_click_api e s =
           s\<lparr>attempts := attempts s + 1, attemptsDisplay := attempts s + 1,
             nodeCount := Suc (nodeCount s),
             markers := markers s @ [\<lparr>marker_id = nodeCount s, marker_left = clickX e,
                                      marker_top = clickY e, marker_success = False\<rparr>],
             message := NotQuite, messageClass := ''message try-again'',
             timeouts := timeouts s @ [(1000, RemoveMarker (nodeCount s))]\<rparr>"
  using assms by (simp add: handler_defs)

lemma click_timed_hit:
  assumes "gameActive s" and "isHit e (batmanLocation s)"
  shows "gameImage_click_timed e now s =
           s\<lparr>clicks := clicks s + 1, clicksDisplay := clicks s + 1,
             nodeCount := Suc (nodeCount s),
             intervals := (case timerInterval s of None \<Rightarrow> intervals s
                           | Some tid \<Rightarrow> intervals s - {tid}),
             gameActive := False,
             markers := markers s @ [\<lparr>marker_id = nodeCount s, marker_left = clickX e,
                                      marker_top = clickY e, marker_success = True\<rparr>],
             timeouts := timeouts s @
               [(1000, ShowResults (sinceStart now s div 1000)
                         (calculateScore (int (clicks s + 1)) (sinceStart now s div 1000)))]\<rparr>"
  using assms by (cases "timerInterval s") (simp_all add: handler_defs sinceStart_def)

lemma click_timed_miss:
  assumes "gameActive s" and "\<not> isHit e (batmanLocation s)"
  shows "gameImage_click_timed e now s =
           s\<lparr>clicks := clicks s + 1, clicksDisplay := clicks s + 1,
             nodeCount := Suc (nodeCount s),
             markers := markers s @ [\<lparr>marker_id = nodeCount s, marker_left = clickX e,
                                      marker_top = clickY e, marker_success = False\<rparr>],
             message := NotQuite, messageClass := ''message try-again'',
             timeouts := timeouts s @ [(1000, RemoveMarker (nodeCount s))]\<rparr>"
  using assms by (simp add: handler_defs)

subsection \<open>The sample clicks\<close>

text \<open>
  On the initial target \<open>(0.5, 0.5)\<close> with radius 50, rendered 800 by 600: the clicks
  at \<open>(400, 300)\<close> and \<open>(450, 300)\<close> hit, those at \<open>(451, 300)\<close> and \<open>(300, 300)\<close> miss.
\<close>

lemma sample_clicks:
  assumes "batmanLocation s = \<lparr>loc_x = Fin 0.5, loc_y = Fin 0.5, loc_radius = Fin 50\<rparr>"
  shows "isHit (scenario_click 400 300) (batmanLocation s)"
    and "isHit (scenario_click 450 300) (batmanLocation s)"
    and "\<not> isHit (scenario_click 451 300) (batmanLocation s)"
    and "\<not> isHit (scenario_click 300 300) (batmanLocation s)"
  by (simp_all add: assms hit_test_defs scenario_click_def round64_Ints sample_roots)

lemma sample_click_points:
  "clickX (scenario_click 400 300) = Fin 400" "clickY (scenario_click 400 300) = Fin 300"
  "clickX (scenario_click 450 300) = Fin 450" "clickY (scenario_click 450 300) = Fin 300"
  "clickX (scenario_click 451 300) = Fin 451" "clickY (scenario_click 451 300) = Fin 300"
  "clickX (scenario_click 300 300) = Fin 300" "clickY (scenario_click 300 300) = Fin 300"
  by (simp_all add: clickX_def clickY_def scenario_click_def round64_Ints)

lemma initial_location:
  "batmanLocation (startGame_plain initial_page)
     = \<lparr>loc_x = Fin 0.5, loc_y = Fin 0.5, loc_radius = Fin 50\<rparr>"
  "batmanLocation (startGame_timed now initial_page)
     = \<lparr>loc_x = Fin 0.5, loc_y = Fin 0.5, loc_radius = Fin 50\<rparr>"
  by (simp_all add: sample_defs Let_def)

section \<open>The hit test\<close>

lemma page_after_reply:
  "gameActive (page_after (reply_data x y r))"
  "markers (page_after (reply_data x y r)) = []"
  "timeouts (page_after (reply_data x y r)) = []"
  "nodeCount (page_after (reply_data x y r)) = 0"
  "attempts (page_after (reply_data x y r)) = 0"
  "batmanLocation (page_after (reply_data x y r))
     = \<lparr>loc_x = Fin x, loc_y = Fin y, loc_radius = number_or r (Fin 42)\<rparr>"
  "gameImageSrc (page_after (reply_data x y r)) = Some ''/outputs/result.png?t=1700000000000''"
  by (simp_all add: page_after_def reply_data_def photo_file_def run_api_def
      fileInput_change_api_def isImageFile_def
      processUploadedImage_resume_def processUploadedImage_ok_def
      processUploadedImage_begin_def showLoading_def string_or_def
      sample_defs Let_def)

text \<open>
  C1, as the claim states it, fails. On \<open>tenth_page\<close> a reply has put the target at
  \<open>x = 0.1\<close> (the double nearest to it) and \<open>y = 0.5\<close> with radius 50; the image is
  rendered 800 by 600 and the click is at \<open>(30, 300)\<close>. The Euclidean distance between
  the click point and the target point (the target coordinates multiplied by the
  rendered size) is more than the radius, yet the handler counts a hit and ends the
  game: it rounds the product \<^verbatim>\<open>0.1 * 800\<close> to 80.
\<close>

theorem hit_beyond_radius_counterexample:
  "round64 0.1 = Fin tenth
   \<and> gameActive tenth_page
   \<and> batmanLocation tenth_page = \<lparr>loc_x = Fin tenth, loc_y = Fin 0.5, loc_radius = Fin 50\<rparr>
   \<and> 50 < euclidean_distance (30, 300) (tenth * 800, 0.5 * 600)
   \<and> marker_success (last (markers (gameImage_click_api (scenario_click 30 300) tenth_page)))
   \<and> \<not> gameActive (gameImage_click_api (scenario_click 30 300) tenth_page)"
proof -
  have active: "gameActive tenth_page"
    unfolding tenth_page_def by (rule page_after_reply)
  have loc: "batmanLocation tenth_page
               = \<lparr>loc_x = Fin tenth, loc_y = Fin 0.5, loc_radius = Fin 50\<rparr>"
    unfolding tenth_page_def by (simp add: page_after_reply number_or_def)
  have "euclidean_distance (30, 300) (tenth * 800, 0.5 * 600) = \<bar>30 - tenth * 800\<bar>"
    by (simp add: euclidean_distance_def)
  then have beyond: "50 < euclidean_distance (30, 300) (tenth * 800, 0.5 * 600)"
    using tenth_times_800(2) by simp
  have hit: "isHit (scenario_click 30 300) (batmanLocation tenth_page)"
    by (simp add: loc hit_test_defs scenario_click_def tenth_times_800(1) round64_Ints
        sample_roots)
  have won: "marker_success
      (last (markers (gameImage_click_api (scenario_click 30 300) tenth_page)))"
    "\<not> gameActive (gameImage_click_api (scenario_click 30 300) tenth_page)"
    by (simp_all add: click_api_hit [OF active hit])
  show ?thesis
    using tenth_nearest(1) active loc beyond won by blast
qed

text \<open>
  C1, amended. A click handled while the game is active is a hit (its marker is the
  success marker and the game ends) exactly when the distance as the handler computes it
  in double arithmetic is at most the radius: the square root of the sum of the squared
  differences between the click point and the target point, where the target point is
  the rounded product of the target coordinates and the rendered size and every
  operation rounds to the nearest double. The comparison is inclusive. Where no step
  rounds, this is the exact Euclidean test. This holds for the handlers of all three
  scripts.
\<close>

theorem hit_iff_computed_distance_le_radius:
  assumes "gameActive s"
  shows "(marker_success (last (markers (gameImage_click_plain e s)))
            = js_le (distance e (batmanLocation s)) (loc_radius (batmanLocation s)))
       \<and> (gameActive (gameImage_click_plain e s)
            = (\<not> js_le (distance e (batmanLocation s)) (loc_radius (batmanLocation s))))
       \<and> (marker_success (last (markers (gameImage_click_api e s)))
            = js_le (distance e (batmanLocation s)) (loc_radius (batmanLocation s)))
       \<and> (gameActive (gameImage_click_api e s)
            = (\<not> js_le (distance e (batmanLocation s)) (loc_radius (batmanLocation s))))
       \<and> (marker_success (last (markers (gameImage_click_timed e now s)))
            = js_le (distance e (batmanLocation s)) (loc_radius (batmanLocation s)))
       \<and> (gameActive (gameImage_click_timed e now s)
            = (\<not> js_le (distance e (batmanLocation s)) (loc_radius (batmanLocation s))))
       \<and> distance e (batmanLocation s)
            = Math_sqrt
                (js_add
                  (Math_pow_2
                    (js_sub (js_sub (clientX e) (rect_left e))
                       (js_mul (loc_x (batmanLocation s)) (of_unsigned_long (image_width e)))))
                  (Math_pow_2
                    (js_sub (js_sub (clientY e) (rect_top e))
                       (js_mul (loc_y (batmanLocation s)) (of_unsigned_long (image_height e))))))
       \<and> (clientX e = Fin cx \<and> clientY e = Fin cy
            \<and> rect_left e = Fin l \<and> rect_top e = Fin t
            \<and> loc_x (batmanLocation s) = Fin x \<and> loc_y (batmanLocation s) = Fin y
            \<and> loc_radius (batmanLocation s) = Fin r
            \<and> exactly_computed cx cy l t x y (real (unat (image_width e)))
                 (real (unat (image_height e)))
          \<longrightarrow> js_le (distance e (batmanLocation s)) (loc_radius (batmanLocation s))
                = (euclidean_distance (cx - l, cy - t)
                     (x * real (unat (image_width e)), y * real (unat (image_height e)))
                   \<le> r))"
proof -
  have computed: "distance e (batmanLocation s)
            = Math_sqrt
                (js_add
                  (Math_pow_2
                    (js_sub (js_sub (clientX e) (rect_left e))
                       (js_mul (loc_x (batmanLocation s)) (of_unsigned_long (image_width e)))))
                  (Math_pow_2
                    (js_sub (js_sub (clientY e) (rect_top e))
                       (js_mul (loc_y (batmanLocation s)) (of_unsigned_long (image_height e))))))"
    by (simp add: distance_def clickX_def clickY_def batmanX_def batmanY_def)
  have exact: "clientX e = Fin cx \<and> clientY e = Fin cy
            \<and> rect_left e = Fin l \<and> rect_top e = Fin t
            \<and> loc_x (batmanLocation s) = Fin x \<and> loc_y (batmanLocation s) = Fin y
            \<and> loc_radius (batmanLocation s) = Fin r
            \<and> exactly_computed cx cy l t x y (real (unat (image_width e)))
                 (real (unat (image_height e)))
          \<longrightarrow> js_le (distance e (batmanLocation s)) (loc_radius (batmanLocation s))
                = (euclidean_distance (cx - l, cy - t)
                     (x * real (unat (image_width e)), y * real (unat (image_height e)))
                   \<le> r)"
    using isHit_exactly_computed [of e cx cy l t "batmanLocation s" x y r]
    by (simp add: isHit_def)
  have outcome: "(marker_success (last (markers (gameImage_click_plain e s)))
            = js_le (distance e (batmanLocation s)) (loc_radius (batmanLocation s)))
       \<and> (gameActive (gameImage_click_plain e s)
            = (\<not> js_le (distance e (batmanLocation s)) (loc_radius (batmanLocation s))))
       \<and> (marker_success (last (markers (gameImage_click_api e s)))
            = js_le (distance e (batmanLocation s)) (loc_radius (batmanLocation s)))
       \<and> (gameActive (gameImage_click_api e s)
            = (\<not> js_le (distance e (batmanLocation s)) (loc_radius (batmanLocation s))))
       \<and> (marker_success (last (markers (gameImage_click_timed e now s)))
            = js_le (distance e (batmanLocation s)) (loc_radius (batmanLocation s)))
       \<and> (gameActive (gameImage_click_timed e now s)
            = (\<not> js_le (distance e (batmanLocation s)) (loc_radius (batmanLocation s))))"
  proof (cases "isHit e (batmanLocation s)")
    case True
    then have "js_le (distance e (batmanLocation s)) (loc_radius (batmanLocation s))"
      by (simp add: isHit_def)
    then show ?thesis
      using assms True
      by (simp add: click_plain_hit click_api_hit click_timed_hit)
  next
    case False
    then have "\<not> js_le (distance e (batmanLocation s)) (loc_radius (batmanLocation s))"
      by (simp add: isHit_def)
    then show ?thesis
      using assms False
      by (simp add: click_plain_miss click_api_miss click_timed_miss)
  qed
  show ?thesis
    using outcome computed exact by blast
qed

text \<open>
  The scenario of the specification: target at \<open>(0.5, 0.5)\<close>, radius 50, image 800 by
  600. No step rounds for the clicks at \<open>(450, 300)\<close> and \<open>(451, 300)\<close>: the first lies
  at distance exactly 50 and is a hit, the second at distance 51 and is a miss.
\<close>

theorem hit_iff_computed_distance_le_radius_witness:
  "gameActive (startGame_plain initial_page)
   \<and> exactly_computed 450 300 0 0 0.5 0.5 800 600
   \<and> exactly_computed 451 300 0 0 0.5 0.5 800 600
   \<and> euclidean_distance (450, 300) (0.5 * 800, 0.5 * 600) = 50
   \<and> euclidean_distance (451, 300) (0.5 * 800, 0.5 * 600) = 51
   \<and> marker_success (last (markers
        (gameImage_click_plain (scenario_click 450 300) (startGame_plain initial_page))))
   \<and> \<not> gameActive
        (gameImage_click_plain (scenario_click 450 300) (startGame_plain initial_page))
   \<and> \<not> marker_success (last (markers
        (gameImage_click_plain (scenario_click 451 300) (startGame_plain initial_page))))
   \<and> gameActive
        (gameImage_click_plain (scenario_click 451 300) (startGame_plain initial_page))"
proof -
  let ?s = "startGame_plain initial_page"
  let ?L = "batmanLocation (startGame_plain initial_page)"
  have active: "gameActive ?s"
    by (simp add: sample_defs)
  have exact: "exactly_computed 450 300 0 0 0.5 0.5 800 600"
    "exactly_computed 451 300 0 0 0.5 0.5 800 600"
    by (simp_all add: exactly_computed_def is_double_Ints sample_roots)
  have dist: "euclidean_distance (450, 300) (0.5 * 800, 0.5 * 600) = 50"
    "euclidean_distance (451, 300) (0.5 * 800, 0.5 * 600) = 51"
    by (simp_all add: euclidean_distance_def sample_roots)
  have size: "real (unat (image_width (scenario_click cx cy))) = 800"
    "real (unat (image_height (scenario_click cx cy))) = 600"
    "(unsigned (image_width (scenario_click cx cy)) :: real) = 800"
    "(unsigned (image_height (scenario_click cx cy)) :: real) = 600" for cx cy
    by (simp_all add: scenario_click_def)
  note at_450 = hit_iff_computed_distance_le_radius
    [OF active, of "scenario_click 450 300" 0 450 300 0 0 "0.5" "0.5" 50]
  note at_451 = hit_iff_computed_distance_le_radius
    [OF active, of "scenario_click 451 300" 0 451 300 0 0 "0.5" "0.5" 50]
  have "clientX (scenario_click 450 300) = Fin 450 \<and> clientY (scenario_click 450 300) = Fin 300
      \<and> rect_left (scenario_click 450 300) = Fin 0 \<and> rect_top (scenario_click 450 300) = Fin 0
      \<and> loc_x ?L = Fin 0.5 \<and> loc_y ?L = Fin 0.5 \<and> loc_radius ?L = Fin 50
      \<and> exactly_computed 450 300 0 0 0.5 0.5
            (real (unat (image_width (scenario_click 450 300))))
            (real (unat (image_height (scenario_click 450 300))))"
    using exact(1) by (simp add: size initial_location) (simp add: scenario_click_def)
  then have "js_le (distance (scenario_click 450 300) ?L) (loc_radius ?L)
          = (euclidean_distance (450 - 0, 300 - 0)
               (0.5 * real (unat (image_width (scenario_click 450 300))),
                0.5 * real (unat (image_height (scenario_click 450 300)))) \<le> 50)"
    by (rule at_450 [THEN conjunct2, THEN conjunct2, THEN conjunct2, THEN conjunct2,
          THEN conjunct2, THEN conjunct2, THEN conjunct2, THEN mp])
  then have inside: "js_le (distance (scenario_click 450 300) ?L) (loc_radius ?L)"
    using dist(1) by (simp add: size)
  have "clientX (scenario_click 451 300) = Fin 451 \<and> clientY (scenario_click 451 300) = Fin 300
      \<and> rect_left (scenario_click 451 300) = Fin 0 \<and> rect_top (scenario_click 451 300) = Fin 0
      \<and> loc_x ?L = Fin 0.5 \<and> loc_y ?L = Fin 0.5 \<and> loc_radius ?L = Fin 50
      \<and> exactly_computed 451 300 0 0 0.5 0.5
            (real (unat (image_width (scenario_click 451 300))))
            (real (unat (image_height (scenario_click 451 300))))"
    using exact(2) by (simp add: size initial_location) (simp add: scenario_click_def)
  then have "js_le (distance (scenario_click 451 300) ?L) (loc_radius ?L)
          = (euclidean_distance (451 - 0, 300 - 0)
               (0.5 * real (unat (image_width (scenario_click 451 300))),
                0.5 * real (unat (image_height (scenario_click 451 300)))) \<le> 50)"
    by (rule at_451 [THEN conjunct2, THEN conjunct2, THEN conjunct2, THEN conjunct2,
          THEN conjunct2, THEN conjunct2, THEN conjunct2, THEN mp])
  then have outside: "\<not> js_le (distance (scenario_click 451 300) ?L) (loc_radius ?L)"
    using dist(2) by (simp add: size)
  have "marker_success (last (markers (gameImage_click_plain (scenario_click 450 300) ?s)))"
    using at_450 [THEN conjunct1] inside by simp
  moreover have "\<not> gameActive (gameImage_click_plain (scenario_click 450 300) ?s)"
    using at_450 [THEN conjunct2, THEN conjunct1] inside by simp
  moreover
  have "\<not> marker_success (last (markers (gameImage_click_plain (scenario_click 451 300) ?s)))"
    using at_451 [THEN conjunct1] outside by simp
  moreover have "gameActive (gameImage_click_plain (scenario_click 451 300) ?s)"
    using at_451 [THEN conjunct2, THEN conjunct1] outside by simp
  ultimately show ?thesis
    using active exact dist by blast
qed

section \<open>The score\<close>

text \<open>
  C2. The score is \<open>max(0, 1000 - attempts * 50 - elapsed_seconds * 10)\<close>; 3 attempts and
  20 seconds give 650; and on a hit the timed script hands \<^verbatim>\<open>showResults\<close> that score,
  computed from the click count (the winning click included) and the whole seconds since
  the start, so that it becomes the final score shown.
\<close>

theorem score_formula:
  "calculateScore a t = max 0 (1000 - a * 50 - t * 10)
   \<and> calculateScore 3 20 = 650
   \<and> (gameActive s \<and> isHit e (batmanLocation s) \<longrightarrow>
        finalScore (timeout_fires (length (timeouts s)) (gameImage_click_timed e now s))
          = max 0 (1000 - int (clicks (gameImage_click_timed e now s)) * 50
                     - (sinceStart now s div 1000) * 10))"
  by (simp add: calculateScore_def click_timed_hit timeout_fires_def runTask_def
      showResults_def showStep_timed_def)

text \<open>
  A round started at clock reading 1000 with two misses behind it; the third click hits
  at reading 21500, that is after 20 whole seconds: the final score is 650.
\<close>

theorem score_formula_witness:
  "gameActive ((startGame_timed 1000 initial_page)\<lparr>clicks := 2\<rparr>)
   \<and> isHit (scenario_click 400 300)
        (batmanLocation ((startGame_timed 1000 initial_page)\<lparr>clicks := 2\<rparr>))
   \<and> finalScore (timeout_fires 0
        (gameImage_click_timed (scenario_click 400 300) 21500
           ((startGame_timed 1000 initial_page)\<lparr>clicks := 2\<rparr>))) = 650"
proof -
  let ?s = "(startGame_timed 1000 initial_page)\<lparr>clicks := 2\<rparr>"
  have active: "gameActive ?s"
    by (simp add: sample_defs)
  have hit: "isHit (scenario_click 400 300) (batmanLocation ?s)"
    by (rule sample_clicks) (simp add: initial_location)
  have queue: "length (timeouts ?s) = 0"
    by (simp add: sample_defs)
  have count: "clicks (gameImage_click_timed (scenario_click 400 300) 21500 ?s) = 3"
    using active hit by (simp add: click_timed_hit)
  have seconds: "sinceStart 21500 ?s div 1000 = 20"
    by (simp add: sinceStart_def sample_defs)
  show ?thesis
    using active hit queue count seconds
      score_formula [of 3 20 ?s "scenario_click 400 300" 21500]
    by simp
qed

text \<open>
  C3. The score never increases when the elapsed seconds grow (attempts fixed), never
  increases when the attempts grow (seconds fixed), and is never negative.
\<close>

theorem score_monotone_nonnegative:
  "(t \<le> t' \<longrightarrow> calculateScore a t' \<le> calculateScore a t)
   \<and> (a \<le> a' \<longrightarrow> calculateScore a' t \<le> calculateScore a t)
   \<and> 0 \<le> calculateScore a t"
  unfolding calculateScore_def Let_def by auto

theorem score_monotone_nonnegative_witness:
  "(20::int) \<le> 30 \<and> calculateScore 3 30 \<le> calculateScore 3 20
   \<and> (3::int) \<le> 4 \<and> calculateScore 4 20 \<le> calculateScore 3 20
   \<and> 0 \<le> calculateScore 3 20
   \<and> calculateScore 3 30 = 550 \<and> calculateScore 4 20 = 600 \<and> calculateScore 30 40 = 0"
  using score_monotone_nonnegative [of 20 30 3 4]
  by (simp add: calculateScore_def)

section \<open>Clicks as transitions\<close>

subsection \<open>Fresh node identities\<close>
















subsection \<open>Markers that stay\<close>

lemma kept_frame:
  assumes "kept m s"
    and "set (markers s) \<subseteq> set (markers s')"
    and "set (timeouts s') \<subseteq> set (timeouts s) \<union> {p. removes_below 0 p}"
    and "nodeCount s \<le> nodeCount s'"
  shows "kept m s'"
proof -
  have "removes_below 0 p \<Longrightarrow> snd p \<noteq> RemoveMarker i" for p i
    by (cases "snd p") (simp_all add: removes_below_def)
  then show ?thesis
    using assms by (auto simp add: kept_def list_all_iff)
qed









subsection \<open>Misses and hits\<close>









subsection \<open>The end of a timed round\<close>

lemma double_started_page:
  "gameActive double_started" "timerInterval double_started = Some 2"
  "intervals double_started = {1, 2}" "startTime double_started = Some 2000"
  "clicks double_started = 0" "timeouts double_started = []" "markers double_started = []"
  "batmanLocation double_started = \<lparr>loc_x = Fin 0.5, loc_y = Fin 0.5, loc_radius = Fin 50\<rparr>"
  "activeStep (run_timed (take 7 double_start) initial_page) = Some Ready"
  "gameActive (run_timed (take 7 double_start) initial_page)"
  "intervals (run_timed (take 7 double_start) initial_page) = {1}"
  by (simp_all add: double_started_def double_start_def run_timed_def sample_defs
      fileInput_change_timed_def isImageFile_def photo_file_def uploadAndProcess_begin_def
      uploadAndProcess_resume_def setTimeout_def timeout_fires_def runTask_def Let_def
      insert_commute numeral_2_eq_2)

text \<open>
  What a hit does guarantee in the timed script: the timer whose identifier
  \<^verbatim>\<open>timerInterval\<close> holds is cleared, the game is inactive, and every later click
  leaves the page as it is.
\<close>

lemma hit_clears_held_timer:
  assumes "gameActive s" and "isHit e (batmanLocation s)"
  shows "intervals (gameImage_click_timed e now s)
           = (case timerInterval s of None \<Rightarrow> intervals s | Some tid \<Rightarrow> intervals s - {tid})"
    and "\<not> gameActive (gameImage_click_timed e now s)"
    and "gameImage_click_timed e' now' (gameImage_click_timed e now s)
           = gameImage_click_timed e now s"
  using assms by (simp_all add: handler_defs split: option.splits)

text \<open>
  C5. The claim fails on the timed script where \<^verbatim>\<open>startGame\<close> has run twice in a round:
  it overwrites \<^verbatim>\<open>timerInterval\<close> with the new timer's identifier and never clears the
  old timer, so the hit, which clears the timer \<^verbatim>\<open>timerInterval\<close> names, stops the second
  timer and leaves the first running. The events: two uploads sent one after the other,
  both answered, the ready step shown by the first timeout, the game started (timer 1),
  the ready step shown again by the second timeout while the game is active, the game
  started again (timer 2). A tick at 5000 shows 0:03, the click on the target at 5000
  ends the round with 3 seconds and the score 920, and timer 1 is still running: its
  tick at 50000 shows 0:48, and after the results step is up its tick at 110000 shows
  1:48. Elapsed time keeps accumulating after the terminal transition.
\<close>

theorem leaked_timer_ticks_after_win:
  "activeStep (run_timed (take 7 double_start) initial_page) = Some Ready
   \<and> gameActive (run_timed (take 7 double_start) initial_page)
   \<and> intervals (run_timed (take 7 double_start) initial_page) = {1}
   \<and> gameActive double_started
   \<and> timerInterval double_started = Some 2
   \<and> intervals double_started = {1, 2}
   \<and> isHit (scenario_click 400 300) (batmanLocation double_started)
   \<and> \<not> gameActive double_won
   \<and> timerDisplay double_won = Some (0, 3)
   \<and> timeouts double_won = [(1000, ShowResults 3 920)]
   \<and> intervals double_won = {1}
   \<and> timerDisplay (run_timed [IntervalTicks 1 50000] double_won) = Some (0, 48)
   \<and> activeStep (run_timed [TimeoutExpires 0, IntervalTicks 1 110000] double_won)
       = Some Results
   \<and> finalTime (run_timed [TimeoutExpires 0, IntervalTicks 1 110000] double_won)
       = Some (0, 3)
   \<and> timerDisplay (run_timed [TimeoutExpires 0, IntervalTicks 1 110000] double_won)
       = Some (1, 48)"
proof -
  have hit: "isHit (scenario_click 400 300) (batmanLocation double_started)"
    by (rule sample_clicks) (rule double_started_page)
  define ticked where "ticked = interval_fires 2 5000 double_started"
  have ticked: "ticked = double_started\<lparr>timerDisplay := Some (0, 3)\<rparr>"
    by (simp add: ticked_def interval_fires_def updateTimer_def sinceStart_def js_rem_def
        double_started_page Let_def)
  have active: "gameActive ticked" and target: "isHit (scenario_click 400 300) (batmanLocation ticked)"
    using hit by (simp_all add: ticked double_started_page)
  have won: "double_won = gameImage_click_timed (scenario_click 400 300) 5000 ticked"
    by (simp add: double_won_def double_started_def run_timed_def ticked_def)
  note page = click_timed_hit [OF active target, of 5000, folded won]
  have after: "\<not> gameActive double_won" "timerDisplay double_won = Some (0, 3)"
    "timeouts double_won = [(1000, ShowResults 3 920)]" "intervals double_won = {1}"
    "startTime double_won = Some 2000"
    by (simp_all add: page ticked double_started_page sinceStart_def calculateScore_def
        Let_def insert_Diff_if)
  have later: "timerDisplay (run_timed [IntervalTicks 1 50000] double_won) = Some (0, 48)"
    by (simp add: run_timed_def interval_fires_def updateTimer_def sinceStart_def js_rem_def
        after Let_def)
  have results:
    "activeStep (run_timed [TimeoutExpires 0, IntervalTicks 1 110000] double_won) = Some Results"
    "finalTime (run_timed [TimeoutExpires 0, IntervalTicks 1 110000] double_won) = Some (0, 3)"
    "timerDisplay (run_timed [TimeoutExpires 0, IntervalTicks 1 110000] double_won) = Some (1, 48)"
    by (simp_all add: run_timed_def interval_fires_def updateTimer_def sinceStart_def js_rem_def
        timeout_fires_def runTask_def showResults_def showStep_timed_def after Let_def)
  show ?thesis
    using double_started_page(1,2,3,9,10,11) hit after(1,2,3,4) later results by simp
qed

section \<open>Play again and reset\<close>

lemma processed_page_facts:
  "gameActive (processed_page r)"
  "markers (processed_page r) = []"
  "timeouts (processed_page r) = []"
  "nodeCount (processed_page r) = 0"
  "attempts (processed_page r) = 0"
  "batmanLocation (processed_page r)
     = \<lparr>loc_x = Fin 0.25, loc_y = Fin 0.75, loc_radius = number_or r (Fin 42)\<rparr>"
  "gameImageSrc (processed_page r) = Some ''/outputs/result.png?t=1700000000000''"
  unfolding processed_page_def sample_data_def by (rule page_after_reply)+

lemma started_page:
  "gameActive started" "timerInterval started = Some 1" "intervals started = {1}"
  "startTime started = Some 1000" "clicks started = 0" "timeouts started = []"
  "markers started = []" "nodeCount started = 0" "activeStep started = Some Game"
  "batmanLocation started = \<lparr>loc_x = Fin 0.5, loc_y = Fin 0.5, loc_radius = Fin 50\<rparr>"
  by (simp_all add: started_def run_timed_def sample_defs Let_def)

text \<open>
  C6. \<^verbatim>\<open>playAgain\<close> (plain and api scripts), from any page and so from every won or
  revealed one, clears all markers, sets the attempts to 0 and makes the game active on
  the step it was on, and leaves \<^verbatim>\<open>batmanLocation\<close> (x, y and radius) as it was; the
  same holds for \<^verbatim>\<open>giveUp\<close> followed by \<^verbatim>\<open>playAgain\<close>.
\<close>

theorem playAgain_keeps_placement:
  "markers (playAgain_api s) = [] \<and> attempts (playAgain_api s) = 0
   \<and> gameActive (playAgain_api s) \<and> activeStep (playAgain_api s) = activeStep s
   \<and> batmanLocation (playAgain_api s) = batmanLocation s
   \<and> markers (playAgain_plain s) = [] \<and> attempts (playAgain_plain s) = 0
   \<and> gameActive (playAgain_plain s) \<and> activeStep (playAgain_plain s) = activeStep s
   \<and> batmanLocation (playAgain_plain s) = batmanLocation s
   \<and> batmanLocation (giveUp w h s) = batmanLocation s
   \<and> markers (playAgain_api (giveUp w h s)) = []
   \<and> attempts (playAgain_api (giveUp w h s)) = 0
   \<and> gameActive (playAgain_api (giveUp w h s))
   \<and> activeStep (playAgain_api (giveUp w h s)) = activeStep s
   \<and> batmanLocation (playAgain_api (giveUp w h s)) = batmanLocation s"
  by (simp add: playAgain_api_def playAgain_plain_def giveUp_def revealBatmanMarker_def
      removeAllMarkers_def appendMarker_def Let_def)

text \<open>
  The page after the sample reply (target \<open>(0.25, 0.75)\<close>, radius 30): giving up ends
  the game and reveals the target at \<open>(200, 450)\<close>; playing again clears the marker,
  starts at 0 attempts and keeps the target.
\<close>

theorem playAgain_keeps_placement_witness:
  "gameActive (processed_page (Some (Fin 30)))
   \<and> \<not> gameActive (giveUp 800 600 (processed_page (Some (Fin 30))))
   \<and> markers (giveUp 800 600 (processed_page (Some (Fin 30))))
       = [\<lparr>marker_id = 0, marker_left = Fin 200, marker_top = Fin 450,
           marker_success = True\<rparr>]
   \<and> markers (playAgain_api (giveUp 800 600 (processed_page (Some (Fin 30))))) = []
   \<and> attempts (playAgain_api (giveUp 800 600 (processed_page (Some (Fin 30))))) = 0
   \<and> gameActive (playAgain_api (giveUp 800 600 (processed_page (Some (Fin 30)))))
   \<and> batmanLocation (playAgain_api (giveUp 800 600 (processed_page (Some (Fin 30)))))
       = \<lparr>loc_x = Fin 0.25, loc_y = Fin 0.75, loc_radius = Fin 30\<rparr>"
proof -
  let ?s = "processed_page (Some (Fin 30))"
  have page: "gameActive ?s" "markers ?s = []" "nodeCount ?s = 0"
    "batmanLocation ?s = \<lparr>loc_x = Fin 0.25, loc_y = Fin 0.75, loc_radius = Fin 30\<rparr>"
    by (simp_all add: processed_page_facts number_or_def)
  have revealed: "\<not> gameActive (giveUp 800 600 ?s)"
    "markers (giveUp 800 600 ?s)
       = [\<lparr>marker_id = 0, marker_left = Fin 200, marker_top = Fin 450,
           marker_success = True\<rparr>]"
    using page
    by (simp_all add: giveUp_def revealBatmanMarker_def appendMarker_def Let_def
        of_unsigned_long_def round64_Ints)
  show ?thesis
    using page revealed playAgain_keeps_placement [where s = ?s and w = 800 and h = 600]
    by simp
qed




section \<open>Files that are not images\<close>

text \<open>
  C8, as the claim states it, fails: no validation message is shown. Selecting the text
  file \<^verbatim>\<open>notes.txt\<close> (type \<^verbatim>\<open>text/plain\<close>) on the initial page leaves the whole page as
  it is in all three scripts; the message and the upload status stay empty, also when the
  file is dropped.
\<close>

theorem non_image_message_counterexample:
  "\<not> isImageFile (Some text_file)
   \<and> fileInput_change_plain (Some text_file) initial_page = initial_page
   \<and> fileInput_change_timed (Some text_file) initial_page = initial_page
   \<and> fileInput_change_api (Some text_file) initial_page = initial_page
   \<and> message (fileInput_change_api (Some text_file) initial_page) = Empty
   \<and> uploadStatus (fileInput_change_timed (Some text_file) initial_page) = Empty
   \<and> message (uploadArea_drop_plain (Some text_file) initial_page) = Empty
   \<and> message (uploadArea_drop_api (Some text_file) initial_page) = Empty
   \<and> uploadStatus (uploadArea_drop_timed (Some text_file) initial_page) = Empty"
  by (simp add: isImageFile_def text_file_def initial_page_def
      fileInput_change_plain_def fileInput_change_timed_def fileInput_change_api_def
      uploadArea_drop_plain_def uploadArea_drop_timed_def uploadArea_drop_api_def)

text \<open>
  C8, amended. A selected or dropped file whose type does not start with \<^verbatim>\<open>image/\<close> (or no
  file at all) is ignored: the change handler leaves the whole page as it is, and the drop
  handler only clears the drop area's highlight. So the state does not change, no upload
  or processing request is sent, and no message is shown.
\<close>

theorem non_image_file_ignored:
  assumes "\<not> isImageFile f"
  shows "fileInput_change_plain f s = s
       \<and> fileInput_change_timed f s = s
       \<and> fileInput_change_api f s = s
       \<and> uploadArea_drop_plain f s = s\<lparr>uploadAreaBackground := ''''\<rparr>
       \<and> uploadArea_drop_timed f s = s\<lparr>uploadAreaBackground := ''''\<rparr>
       \<and> uploadArea_drop_api f s = s\<lparr>uploadAreaBackground := ''''\<rparr>
       \<and> fetches (uploadArea_drop_timed f s) = fetches s
       \<and> fetches (uploadArea_drop_api f s) = fetches s
       \<and> message (uploadArea_drop_api f s) = message s
       \<and> uploadStatus (uploadArea_drop_timed f s) = uploadStatus s
       \<and> isImageFile (Some fl) = prefix ''image/'' (file_type fl)"
  using assms
  by (cases f)
    (simp_all add: isImageFile_def
      fileInput_change_plain_def fileInput_change_timed_def fileInput_change_api_def
      uploadArea_drop_plain_def uploadArea_drop_timed_def uploadArea_drop_api_def)

text \<open>
  The text file dropped on the highlighted drop area: the highlight goes, nothing else
  changes. An image file, by contrast, starts the processing request.
\<close>

theorem non_image_file_ignored_witness:
  "\<not> isImageFile (Some text_file)
   \<and> fileInput_change_api (Some text_file) (uploadArea_dragover initial_page)
       = uploadArea_dragover initial_page
   \<and> uploadArea_drop_api (Some text_file) (uploadArea_dragover initial_page) = initial_page
   \<and> fetches (uploadArea_drop_api (Some text_file) (uploadArea_dragover initial_page)) = []
   \<and> isImageFile (Some photo_file)
   \<and> fetches (fileInput_change_api (Some photo_file) initial_page)
       = [(''/api/process'', photo_file)]"
proof -
  have not_image: "\<not> isImageFile (Some text_file)"
    by (simp add: isImageFile_def text_file_def)
  have image: "isImageFile (Some photo_file)"
    by (simp add: isImageFile_def photo_file_def)
  have highlight: "(uploadArea_dragover initial_page)\<lparr>uploadAreaBackground := ''''\<rparr> = initial_page"
    "fetches (uploadArea_dragover initial_page) = []" "fetches initial_page = []"
    by (simp_all add: uploadArea_dragover_def initial_page_def)
  have started: "fetches (fileInput_change_api (Some photo_file) initial_page)
       = [(''/api/process'', photo_file)]"
    using image
    by (simp add: fileInput_change_api_def processUploadedImage_begin_def showLoading_def
        initial_page_def Let_def)
  show ?thesis
    using not_image image highlight started
      non_image_file_ignored [OF not_image, of "uploadArea_dragover initial_page" text_file]
    by simp
qed

section \<open>The radius of the reply\<close>





section \<open>The winning click is counted\<close>

lemma elapsed_nonneg:
  assumes "startTime s = Some t0" and "t0 \<le> now"
  shows "0 \<le> sinceStart now s div 1000"
  using assms by (simp add: sinceStart_def pos_imp_zdiv_nonneg_iff)

lemma score_first_click_bound: "0 \<le> t \<Longrightarrow> calculateScore (int (c + 1)) t \<le> 950"
  unfolding calculateScore_def Let_def by auto

lemma runTask_counter:
  "clicks (runTask t s) = clicks s" "gameActive (runTask t s) = gameActive s"
  by (cases t; simp add: runTask_def removeMarker_def showResults_def showStep_timed_def
      Let_def)+

lemma counter_kept_handle:
  assumes "\<not> gameActive s" and "\<not> restarts ev"
  shows "clicks (handle_timed ev s) = clicks s \<and> \<not> gameActive (handle_timed ev s)"
proof (cases ev)
  case (Click e now)
  then show ?thesis
    using assms(1) by (simp add: gameImage_click_timed_def)
next
  case (TimeoutExpires i)
  then show ?thesis
    using assms(1) by (simp add: timeout_fires_def runTask_counter)
next
  case (UploadReplied r)
  then show ?thesis
    using assms(1)
    by (cases r) (simp_all add: uploadAndProcess_resume_def setTimeout_def Let_def)
qed (use assms in \<open>simp_all add: fileInput_change_timed_def
      uploadArea_drop_timed_def uploadAndProcess_begin_def uploadArea_dragover_def
      uploadArea_dragleave_def interval_fires_def updateTimer_def Let_def
      split: option.splits\<close>)

lemma counter_kept:
  assumes "\<not> gameActive s" and "no_restart evs"
  shows "clicks (run_timed evs s) = clicks s \<and> \<not> gameActive (run_timed evs s)"
  using assms
proof (induction evs arbitrary: s)
  case Nil
  then show ?case
    by (simp add: run_timed_def)
next
  case (Cons ev evs)
  from Cons.prems have quiet: "\<not> restarts ev" "no_restart evs"
    by (simp_all add: no_restart_def)
  note step = counter_kept_handle [OF Cons.prems(1) quiet(1)]
  from Cons.IH [OF step [THEN conjunct2] quiet(2)] step
  show ?case
    by (simp add: run_timed_def)
qed

lemma two_misses_page:
  "gameActive two_misses" "clicks two_misses = 2" "startTime two_misses = Some 1000"
  "timeouts two_misses = []"
  "batmanLocation two_misses = \<lparr>loc_x = Fin 0.5, loc_y = Fin 0.5, loc_radius = Fin 50\<rparr>"
proof -
  define first where "first = gameImage_click_timed (scenario_click 300 300) 5000 started"
  define cleared where "cleared = timeout_fires 0 first"
  define second where "second = gameImage_click_timed (scenario_click 451 300) 9000 cleared"
  have miss: "\<not> isHit (scenario_click 300 300) (batmanLocation started)"
    by (rule sample_clicks) (rule started_page)
  note first_page = click_timed_miss [OF started_page(1) miss, of 5000, folded first_def]
  have cleared: "gameActive cleared" "clicks cleared = 1" "startTime cleared = Some 1000"
    "timeouts cleared = []"
    "batmanLocation cleared = \<lparr>loc_x = Fin 0.5, loc_y = Fin 0.5, loc_radius = Fin 50\<rparr>"
    by (simp_all add: cleared_def first_page started_page timeout_fires_def runTask_def
        removeMarker_def)
  have miss': "\<not> isHit (scenario_click 451 300) (batmanLocation cleared)"
    by (rule sample_clicks) (rule cleared)
  note second_page = click_timed_miss [OF cleared(1) miss', of 9000, folded second_def]
  have last: "two_misses = timeout_fires 0 second"
    by (simp add: two_misses_def run_timed_def second_def cleared_def first_def)
  show "gameActive two_misses" "clicks two_misses = 2" "startTime two_misses = Some 1000"
    "timeouts two_misses = []"
    "batmanLocation two_misses = \<lparr>loc_x = Fin 0.5, loc_y = Fin 0.5, loc_radius = Fin 50\<rparr>"
    by (simp_all add: last second_page cleared timeout_fires_def runTask_def
        removeMarker_def)
qed

lemma results_shown:
  assumes "gameActive s" and "isHit e (batmanLocation s)"
  shows "finalClicks (timeout_fires (length (timeouts s)) (gameImage_click_timed e now s))
           = clicks s + 1"
    and "finalScore (timeout_fires (length (timeouts s)) (gameImage_click_timed e now s))
           = calculateScore (int (clicks s) + 1) (sinceStart now s div 1000)"
  using assms
  by (simp_all add: click_timed_hit timeout_fires_def runTask_def showResults_def
      showStep_timed_def Let_def add.commute)

text \<open>
  C10, as the claim states it, fails in the timed script. The score can be more than
  950: in a round started at clock reading 10000 the clock is set back, and the first
  click hits the target at reading 4000; the elapsed seconds are -6 and the score is
  1010. And the reported count need not include the winning click: the results are
  shown a second after the hit with the counter's value of that moment, so after a hit
  (counter 1) and a reset before the second is over they report 0 clicks.
\<close>

theorem score_above_950_counterexample:
  "gameActive started_late
   \<and> isHit (scenario_click 400 300) (batmanLocation started_late)
   \<and> timeouts (run_timed [Click (scenario_click 400 300) 4000] started_late)
       = [(1000, ShowResults (- 6) 1010)]
   \<and> finalScore (run_timed [Click (scenario_click 400 300) 4000, TimeoutExpires 0] started_late)
       = 1010
   \<and> gameActive started
   \<and> isHit (scenario_click 400 300) (batmanLocation started)
   \<and> clicks (run_timed [Click (scenario_click 400 300) 3000] started) = 1
   \<and> activeStep
       (run_timed [Click (scenario_click 400 300) 3000, ResetGame, TimeoutExpires 0] started)
       = Some Results
   \<and> finalClicks
       (run_timed [Click (scenario_click 400 300) 3000, ResetGame, TimeoutExpires 0] started)
       = 0"
proof -
  have late: "gameActive started_late" "startTime started_late = Some 10000"
    "clicks started_late = 0" "timeouts started_late = []"
    "batmanLocation started_late
       = \<lparr>loc_x = Fin 0.5, loc_y = Fin 0.5, loc_radius = Fin 50\<rparr>"
    by (simp_all add: started_late_def run_timed_def sample_defs Let_def)
  have hit_late: "isHit (scenario_click 400 300) (batmanLocation started_late)"
    by (rule sample_clicks) (rule late)
  note won_late = click_timed_hit [OF late(1) hit_late, of 4000]
  have queued: "timeouts (run_timed [Click (scenario_click 400 300) 4000] started_late)
       = [(1000, ShowResults (- 6) 1010)]"
    by (simp add: run_timed_def won_late late sinceStart_def calculateScore_def Let_def)
  have score: "finalScore
      (run_timed [Click (scenario_click 400 300) 4000, TimeoutExpires 0] started_late) = 1010"
    using results_shown(2) [OF late(1) hit_late, of 4000]
    by (simp add: run_timed_def late sinceStart_def calculateScore_def Let_def)
  have hit: "isHit (scenario_click 400 300) (batmanLocation started)"
    by (rule sample_clicks) (rule started_page)
  note won = click_timed_hit [OF started_page(1) hit, of 3000]
  have counted: "clicks (run_timed [Click (scenario_click 400 300) 3000] started) = 1"
    by (simp add: run_timed_def won started_page)
  define after where
    "after = resetGame_timed (gameImage_click_timed (scenario_click 400 300) 3000 started)"
  have after: "clicks after = 0" "timeouts after = [(1000, ShowResults 2 930)]"
    by (simp_all add: after_def won started_page resetGame_timed_def removeAllMarkers_def
        showStep_timed_def clearInterval_def sinceStart_def calculateScore_def Let_def)
  have fired: "activeStep (timeout_fires 0 after) = Some Results"
    "finalClicks (timeout_fires 0 after) = 0"
    by (simp_all add: timeout_fires_def runTask_def showResults_def showStep_timed_def after
        Let_def)
  have reported:
    "activeStep
       (run_timed [Click (scenario_click 400 300) 3000, ResetGame, TimeoutExpires 0] started)
       = Some Results"
    "finalClicks
       (run_timed [Click (scenario_click 400 300) 3000, ResetGame, TimeoutExpires 0] started)
       = 0"
    using fired by (simp_all add: run_timed_def after_def)
  show ?thesis
    using late(1) hit_late queued score started_page(1) hit counted reported by blast
qed

text \<open>
  C10, amended. Every click handled while the game is active raises the counter by one
  before the hit test, the winning click included: a won round has at least one attempt,
  the message reports the count with the winning click, and the score is computed at the
  hit from that count. The results report the counter's value of the moment they are
  shown: the count with the winning click when they are shown next, and whenever the
  events in between neither reset nor start the game. When the clock reading at the hit
  is not before the reading at the start, the score of a won round is at most 950, and
  950 is reached by hitting with the first click within the first second.
\<close>

theorem winning_click_counted:
  "(gameActive s \<longrightarrow>
      attempts (gameImage_click_api e s) = attempts s + 1
    \<and> attempts (gameImage_click_plain e s) = attempts s + 1
    \<and> clicks (gameImage_click_timed e now s) = clicks s + 1)
   \<and> (gameActive s \<and> isHit e (batmanLocation s) \<longrightarrow>
      1 \<le> attempts (gameImage_click_api e s)
    \<and> message (gameImage_click_api e s) = FoundBatman (attempts s + 1)
    \<and> 1 \<le> attempts (gameImage_click_plain e s)
    \<and> message (gameImage_click_plain e s) = FoundBatmanBat (attempts s + 1)
    \<and> 1 \<le> clicks (gameImage_click_timed e now s)
    \<and> timeouts (gameImage_click_timed e now s)
        = timeouts s @ [(1000, ShowResults (sinceStart now s div 1000)
             (calculateScore (int (clicks s) + 1) (sinceStart now s div 1000)))]
    \<and> finalClicks (timeout_fires (length (timeouts s)) (gameImage_click_timed e now s))
        = clicks s + 1
    \<and> finalScore (timeout_fires (length (timeouts s)) (gameImage_click_timed e now s))
        = calculateScore (int (clicks s) + 1) (sinceStart now s div 1000)
    \<and> (no_restart evs \<longrightarrow>
        clicks (run_timed evs (gameImage_click_timed e now s)) = clicks s + 1))
   \<and> (i < length (timeouts s) \<and> snd (timeouts s ! i) = ShowResults te sc \<longrightarrow>
      finalClicks (timeout_fires i s) = clicks s \<and> finalScore (timeout_fires i s) = sc)
   \<and> (gameActive s \<and> isHit e (batmanLocation s) \<and> startTime s = Some t0 \<and> t0 \<le> now \<longrightarrow>
      finalScore (timeout_fires (length (timeouts s)) (gameImage_click_timed e now s)) \<le> 950)
   \<and> finalScore (timeout_fires 0 (gameImage_click_timed (scenario_click 400 300) 1999 started))
      = 950"
proof -
  have counted: "gameActive s \<longrightarrow>
      attempts (gameImage_click_api e s) = attempts s + 1
    \<and> attempts (gameImage_click_plain e s) = attempts s + 1
    \<and> clicks (gameImage_click_timed e now s) = clicks s + 1"
    by (cases "isHit e (batmanLocation s)")
      (simp_all add: click_api_hit click_api_miss click_plain_hit click_plain_miss
        click_timed_hit click_timed_miss)
  have later: "no_restart evs \<longrightarrow>
        clicks (run_timed evs (gameImage_click_timed e now s)) = clicks s + 1"
    if "gameActive s" and "isHit e (batmanLocation s)"
  proof
    assume quiet: "no_restart evs"
    have over: "\<not> gameActive (gameImage_click_timed e now s)"
      and one: "clicks (gameImage_click_timed e now s) = clicks s + 1"
      using that by (simp_all add: click_timed_hit)
    from counter_kept [OF over quiet] one
    show "clicks (run_timed evs (gameImage_click_timed e now s)) = clicks s + 1"
      by simp
  qed
  have won: "gameActive s \<and> isHit e (batmanLocation s) \<longrightarrow>
      1 \<le> attempts (gameImage_click_api e s)
    \<and> message (gameImage_click_api e s) = FoundBatman (attempts s + 1)
    \<and> 1 \<le> attempts (gameImage_click_plain e s)
    \<and> message (gameImage_click_plain e s) = FoundBatmanBat (attempts s + 1)
    \<and> 1 \<le> clicks (gameImage_click_timed e now s)
    \<and> timeouts (gameImage_click_timed e now s)
        = timeouts s @ [(1000, ShowResults (sinceStart now s div 1000)
             (calculateScore (int (clicks s) + 1) (sinceStart now s div 1000)))]
    \<and> finalClicks (timeout_fires (length (timeouts s)) (gameImage_click_timed e now s))
        = clicks s + 1
    \<and> finalScore (timeout_fires (length (timeouts s)) (gameImage_click_timed e now s))
        = calculateScore (int (clicks s) + 1) (sinceStart now s div 1000)
    \<and> (no_restart evs \<longrightarrow>
        clicks (run_timed evs (gameImage_click_timed e now s)) = clicks s + 1)"
    using results_shown later
    by (simp add: click_api_hit click_plain_hit click_timed_hit add.commute)
  have shown: "i < length (timeouts s) \<and> snd (timeouts s ! i) = ShowResults te sc \<longrightarrow>
      finalClicks (timeout_fires i s) = clicks s \<and> finalScore (timeout_fires i s) = sc"
    by (simp add: timeout_fires_def runTask_def showResults_def showStep_timed_def Let_def)
  have bound: "gameActive s \<and> isHit e (batmanLocation s) \<and> startTime s = Some t0 \<and> t0 \<le> now
      \<longrightarrow> finalScore (timeout_fires (length (timeouts s)) (gameImage_click_timed e now s))
            \<le> 950"
  proof (intro impI, elim conjE)
    assume a: "gameActive s" and h: "isHit e (batmanLocation s)"
      and t: "startTime s = Some t0" and le: "t0 \<le> now"
    have "calculateScore (int (clicks s + 1)) (sinceStart now s div 1000) \<le> 950"
      by (rule score_first_click_bound [OF elapsed_nonneg [OF t le]])
    then show "finalScore (timeout_fires (length (timeouts s)) (gameImage_click_timed e now s))
            \<le> 950"
      using results_shown(2) [OF a h] by (simp add: add.commute)
  qed
  have best: "finalScore (timeout_fires 0
        (gameImage_click_timed (scenario_click 400 300) 1999 started)) = 950"
  proof -
    have hit: "isHit (scenario_click 400 300) (batmanLocation started)"
      by (rule sample_clicks) (rule started_page)
    show ?thesis
      using results_shown(2) [OF started_page(1) hit, of 1999]
      by (simp add: started_page sinceStart_def calculateScore_def Let_def)
  qed
  show ?thesis
    using counted won shown bound best by blast
qed

text \<open>
  A timed round started at clock reading 1000 with two misses behind it; the third click
  hits at reading 21500. The results report 3 clicks and the score 650, also when a
  tick and a further click come before them.
\<close>

theorem winning_click_counted_witness:
  "gameActive two_misses
   \<and> isHit (scenario_click 400 300) (batmanLocation two_misses)
   \<and> startTime two_misses = Some 1000
   \<and> (1000::int) \<le> 21500
   \<and> no_restart [IntervalTicks 1 21600, Click (scenario_click 300 300) 21700]
   \<and> clicks (gameImage_click_timed (scenario_click 400 300) 21500 two_misses) = 3
   \<and> clicks (run_timed [IntervalTicks 1 21600, Click (scenario_click 300 300) 21700]
        (gameImage_click_timed (scenario_click 400 300) 21500 two_misses)) = 3
   \<and> (0::nat) < length (timeouts
        (gameImage_click_timed (scenario_click 400 300) 21500 two_misses))
   \<and> snd (timeouts (gameImage_click_timed (scenario_click 400 300) 21500 two_misses) ! 0)
       = ShowResults 20 650
   \<and> finalClicks (timeout_fires 0
        (gameImage_click_timed (scenario_click 400 300) 21500 two_misses)) = 3
   \<and> finalScore (timeout_fires 0
        (gameImage_click_timed (scenario_click 400 300) 21500 two_misses)) = 650
   \<and> finalScore (timeout_fires 0
        (gameImage_click_timed (scenario_click 400 300) 21500 two_misses)) \<le> 950"
proof -
  let ?e = "scenario_click 400 300"
  let ?evs = "[IntervalTicks 1 21600, Click (scenario_click 300 300) 21700]"
  let ?won = "gameImage_click_timed ?e 21500 two_misses"
  have hit: "isHit ?e (batmanLocation two_misses)"
    by (rule sample_clicks) (rule two_misses_page)
  have quiet: "no_restart ?evs"
    by (simp add: no_restart_def)
  have elapsed: "sinceStart 21500 two_misses div 1000 = 20"
    by (simp add: sinceStart_def two_misses_page)
  have number: "calculateScore 3 20 = 650"
    by (simp add: calculateScore_def)
  note at_hit = winning_click_counted
    [where s = two_misses and e = ?e and now = 21500 and evs = ?evs and ?t0.0 = 1000,
     THEN conjunct2, THEN conjunct1, THEN mp, OF conjI [OF two_misses_page(1) hit]]
  note within = winning_click_counted
    [where s = two_misses and e = ?e and now = 21500 and ?t0.0 = 1000,
     THEN conjunct2, THEN conjunct2, THEN conjunct2, THEN conjunct1, THEN mp,
     OF conjI [OF two_misses_page(1) conjI [OF hit conjI [OF two_misses_page(3)]]]]
  note each = winning_click_counted
    [where s = two_misses and e = ?e and now = 21500,
     THEN conjunct1, THEN mp, OF two_misses_page(1)]
  have queue: "timeouts ?won = [(1000, ShowResults 20 650)]"
    using at_hit by (simp add: two_misses_page elapsed number)
  note fired = winning_click_counted
    [where s = ?won and i = 0 and te = 20 and sc = 650,
     THEN conjunct2, THEN conjunct2, THEN conjunct1, THEN mp]
  have counter: "clicks ?won = 3" "clicks (run_timed ?evs ?won) = 3"
    "finalClicks (timeout_fires 0 ?won) = 3" "finalScore (timeout_fires 0 ?won) = 650"
    using each at_hit quiet by (simp_all add: two_misses_page elapsed number)
  have limit: "finalScore (timeout_fires 0 ?won) \<le> 950"
    using within by (simp add: two_misses_page)
  have again: "finalClicks (timeout_fires 0 ?won) = clicks ?won"
    using fired by (simp add: queue)
  show ?thesis
    using two_misses_page(1,3) hit quiet counter limit queue again by simp
qed

end
